theory Spec2Isabelle
  imports Main "HOL-Library.Multiset" "HOL-Library.Char_ord" "HOL-Library.List_Lexorder"
begin

section \<open>The Duktape debug session of DukDebugger.ts\<close>

text \<open>
  The development embeds the session class \<open>DukDebugSession\<close> of
  \<^verbatim>\<open>src/DukDebugger.ts\<close> and the helper classes declared before it. JavaScript
  objects held by reference are records addressed through the handle under which the
  session stores them; \<open>null\<close> and \<open>undefined\<close> are \<open>None\<close>; an exception thrown by
  the code and a rejected promise are values of the type \<open>error\<close>. Each request handler
  is run to completion: the replies of the runtime are supplied by an oracle that sees the
  commands sent so far. Trace output (\<open>dbgLog\<close>) does not touch the session and is left out.
\<close>

datatype error =
    TypeError        \<comment> \<open>property access on \<open>null\<close> or \<open>undefined\<close>\<close>
  | AssertionError   \<comment> \<open>a failed \<open>assert\<close>\<close>
  | FsError          \<comment> \<open>an exception of the \<open>fs\<close> module\<close>
  | Rejected string  \<comment> \<open>a promise rejected with the given reason\<close>

subsection \<open>ArrayX\<close>

text \<open>
  \<open>ArrayX.firstOrNull\<close>: the first element the comparer accepts, else \<open>null\<close>. The
  comparer reads fields of the element, so it throws on a \<open>null\<close> element.
\<close>

fun firstOrNull :: "'a list \<Rightarrow> ('a \<Rightarrow> error + bool) \<Rightarrow> error + 'a option" where
  "firstOrNull [] comparer = Inr None"
| "firstOrNull (x # xs) comparer =
     (case comparer x of
        Inl e \<Rightarrow> Inl e
      | Inr True \<Rightarrow> Inr (Some x)
      | Inr False \<Rightarrow> firstOrNull xs comparer)"

subsection \<open>DukBreakPoint and BreakPointMap\<close>

text \<open>
  The constructor of \<open>DukBreakPoint\<close> sets the path and the line; \<open>dukIdx\<close> stays
  \<open>undefined\<close> until the map numbers the entry. The array \<open>_breakpoints\<close> can hold
  \<open>null\<close>: \<open>removeBreakpoints\<close> writes it before compacting the array.
\<close>

record DukBreakPoint =
  filePath :: string
  dukIdx :: "nat option"
  line :: int

definition DukBreakPoint_new :: "string \<Rightarrow> int \<Rightarrow> DukBreakPoint" where
  "DukBreakPoint_new fp ln = \<lparr>filePath = fp, dukIdx = None, line = ln\<rparr>"

type_synonym BreakPointMap = "DukBreakPoint option list"

definition find_bp :: "BreakPointMap \<Rightarrow> string \<Rightarrow> int \<Rightarrow> error + DukBreakPoint option" where
  "find_bp bps fp ln =
     (case firstOrNull bps
             (\<lambda>b. case b of None \<Rightarrow> Inl TypeError
                           | Some b' \<Rightarrow> Inr (filePath b' = fp \<and> line b' = ln)) of
        Inl e \<Rightarrow> Inl e
      | Inr None \<Rightarrow> Inr None
      | Inr (Some b) \<Rightarrow> Inr b)"

text \<open>
  \<open>getBreakpointsForFile\<close> normalises its argument with Node's \<open>Path.normalize\<close>,
  which is passed in as \<open>pnormalize\<close>.
\<close>

fun filterFile :: "string \<Rightarrow> BreakPointMap \<Rightarrow> error + DukBreakPoint list" where
  "filterFile fp [] = Inr []"
| "filterFile fp (None # bps) = Inl TypeError"
| "filterFile fp (Some b # bps) =
     (case filterFile fp bps of
        Inl e \<Rightarrow> Inl e
      | Inr r \<Rightarrow> Inr (if filePath b = fp then b # r else r))"

definition getBreakpointsForFile ::
  "(string \<Rightarrow> string) \<Rightarrow> BreakPointMap \<Rightarrow> string \<Rightarrow> error + DukBreakPoint list" where
  "getBreakpointsForFile pnormalize bps fp = filterFile (pnormalize fp) bps"

text \<open>
  The inner loop of \<open>removeBreakpoints\<close> for one element of \<open>remList\<close>: scan from index 0,
  replace the first entry with the same \<open>dukIdx\<close> by \<open>null\<close> and stop. Reading
  \<open>bps[i].dukIdx\<close> throws when the slot already holds \<open>null\<close>.
\<close>

fun nullFirstMatch :: "nat option \<Rightarrow> BreakPointMap \<Rightarrow> error + BreakPointMap" where
  "nullFirstMatch k [] = Inr []"
| "nullFirstMatch k (None # bps) = Inl TypeError"
| "nullFirstMatch k (Some b # bps) =
     (if dukIdx b = k then Inr (None # bps)
      else case nullFirstMatch k bps of
             Inl e \<Rightarrow> Inl e
           | Inr bps' \<Rightarrow> Inr (Some b # bps'))"

text \<open>
  \<open>remList.forEach\<close>: an exception leaves the array as the earlier iterations wrote it.
\<close>

fun nullMatches :: "DukBreakPoint list \<Rightarrow> BreakPointMap \<Rightarrow> error option \<times> BreakPointMap" where
  "nullMatches [] bps = (None, bps)"
| "nullMatches (b # remList) bps =
     (case nullFirstMatch (dukIdx b) bps of
        Inl e \<Rightarrow> (Some e, bps)
      | Inr bps' \<Rightarrow> nullMatches remList bps')"

text \<open>The backward loop that splices every \<open>null\<close> slot out of the array.\<close>

fun spliceNulls :: "BreakPointMap \<Rightarrow> BreakPointMap" where
  "spliceNulls [] = []"
| "spliceNulls (None # bps) = spliceNulls bps"
| "spliceNulls (Some b # bps) = Some b # spliceNulls bps"

text \<open>
  The loop under the comment \<open>Reset IDs\<close>: \<open>bps[i].dukIdx = i\<close> from index \<open>i\<close> on. It
  throws at a \<open>null\<close> slot, after the entries before it have been renumbered.
\<close>

fun resetIDs :: "nat \<Rightarrow> BreakPointMap \<Rightarrow> error option \<times> BreakPointMap" where
  "resetIDs i [] = (None, [])"
| "resetIDs i (None # bps) = (Some TypeError, None # bps)"
| "resetIDs i (Some b # bps) =
     (case resetIDs (Suc i) bps of
        (e, bps') \<Rightarrow> (e, Some (b\<lparr>dukIdx := Some i\<rparr>) # bps'))"

definition removeBreakpoints ::
  "DukBreakPoint list \<Rightarrow> BreakPointMap \<Rightarrow> error option \<times> BreakPointMap" where
  "removeBreakpoints remList bps =
     (case nullMatches remList bps of
        (Some e, bps') \<Rightarrow> (Some e, bps')
      | (None, bps') \<Rightarrow> resetIDs 0 (spliceNulls bps'))"

definition addBreakpoints ::
  "DukBreakPoint list \<Rightarrow> BreakPointMap \<Rightarrow> error option \<times> BreakPointMap" where
  "addBreakpoints addList bps = resetIDs 0 (bps @ map Some addList)"

text \<open>Every slot holds an entry whose \<open>dukIdx\<close> is its position, counted from \<open>i\<close>.\<close>

fun numberedFrom :: "nat \<Rightarrow> BreakPointMap \<Rightarrow> bool" where
  "numberedFrom i [] = True"
| "numberedFrom i (None # bps) = False"
| "numberedFrom i (Some b # bps) = (dukIdx b = Some i \<and> numberedFrom (Suc i) bps)"

subsection \<open>Node's path and fs modules, the source-map service, line conversion\<close>

text \<open>
  The session calls Node's \<open>path\<close> and \<open>fs\<close> modules, the source-map service of
  \<^verbatim>\<open>sourceMaps.ts\<close> and the line conversion of the base class \<open>DebugSession\<close>. None of
  them is part of the session; they are parameters. A \<open>SourceMap\<close> is asked with column 0
  and \<open>Bias.LEAST_UPPER_BOUND\<close> only, so its two lookups are functions of the line;
  \<open>None\<close> is a position whose \<open>line\<close> is \<open>null\<close>.
\<close>

record SourceMap =
  sm_sources :: "string list"
  generatedPath :: string
  originalPositionFor :: "int \<Rightarrow> (string \<times> int) option"
  generatedPositionFor :: "string \<Rightarrow> int \<Rightarrow> int option"

record Env =
  path_normalize :: "string \<Rightarrow> string"
  path_join :: "string \<Rightarrow> string \<Rightarrow> string"
  path_basename :: "string \<Rightarrow> string"
  existsSync :: "string \<Rightarrow> bool"
  readdirSync :: "string \<Rightarrow> string list option"  \<comment> \<open>\<open>None\<close>: the call throws\<close>
  isDirectory :: "string \<Rightarrow> bool"                   \<comment> \<open>\<open>lstatSync(p).isDirectory()\<close>\<close>
  MapPathFromSource :: "string \<Rightarrow> SourceMap option"
  convertDebuggerLineToClient :: "int \<Rightarrow> int"
  convertClientLineToDebugger :: "int \<Rightarrow> int"

text \<open>\<open>normPath\<close>: normalise, then replace every backslash by a slash.\<close>

definition normPath :: "Env \<Rightarrow> string \<Rightarrow> string" where
  "normPath env fpath =
     map (\<lambda>c. if c = CHR 0x5C then CHR ''/'' else c) (path_normalize env fpath)"

subsection \<open>SourceFile\<close>

record SourceFilePosition =
  pos_path :: string
  pos_fileName :: string
  pos_line :: int

record SourceFile =
  sf_id :: nat
  sf_name :: string
  sf_path :: string
  srcMapPath :: "string option"
  srcMap :: "SourceMap option"

definition generated2Source :: "Env \<Rightarrow> SourceFile \<Rightarrow> int \<Rightarrow> SourceFilePosition" where
  "generated2Source env sf ln =
     (case (case srcMap sf of None \<Rightarrow> None | Some m \<Rightarrow> originalPositionFor m ln) of
        Some (src, l) \<Rightarrow>
          \<lparr>pos_path = src, pos_fileName = path_basename env src, pos_line = l\<rparr>
      | None \<Rightarrow> \<lparr>pos_path = sf_path sf, pos_fileName = sf_name sf, pos_line = ln\<rparr>)"

definition source2Generated :: "SourceFile \<Rightarrow> string \<Rightarrow> int \<Rightarrow> SourceFilePosition" where
  "source2Generated sf absSourcePath ln =
     (case (case srcMap sf of None \<Rightarrow> None | Some m \<Rightarrow> generatedPositionFor m absSourcePath ln) of
        Some l \<Rightarrow> \<lparr>pos_path = sf_path sf, pos_fileName = sf_name sf, pos_line = l\<rparr>
      | None \<Rightarrow> \<lparr>pos_path = sf_path sf, pos_fileName = sf_name sf, pos_line = ln\<rparr>)"

subsection \<open>Numbers as text\<close>

text \<open>
  The text of a natural number in JavaScript: its decimal digits, as \<open>String(n)\<close> and a
  property key give them, and its hexadecimal digits, as \<open>n.toString(16)\<close> gives them.
\<close>

fun showNat :: "nat \<Rightarrow> string" where
  "showNat n =
     (if n < 10 then [''0123456789'' ! n]
      else showNat (n div 10) @ [''0123456789'' ! (n mod 10)])"

declare showNat.simps [simp del]

fun toString16 :: "nat \<Rightarrow> string" where
  "toString16 n =
     (if n < 16 then [''0123456789abcdef'' ! n]
      else toString16 (n div 16) @ [''0123456789abcdef'' ! (n mod 16)])"

declare toString16.simps [simp del]

subsection \<open>Values of the runtime\<close>

text \<open>
  \<open>TValPointer\<close> and \<open>TValObject\<close> as \<^verbatim>\<open>DukConsts.ts\<close> declares them. A heap pointer is a
  target address of a declared size, 4 or 8 bytes, split into a low and a high part, both
  unsigned. Its text is \<^verbatim>\<open>0x\<close> and the low part in hexadecimal, padded with zeros to
  eight digits, for size 4; for any other size the padded high part comes between the
  two. An object reference is a class id and a heap pointer.

  A value of the runtime (\<open>DValueUnion\<close>) is a string, an object reference, \<open>undefined\<close>,
  or any other value, which the session only ever converts with \<open>String()\<close>: \<open>VOther\<close>
  carries that text.
\<close>

record TValPointer =
  ptr_size :: nat
  lopart :: nat
  hipart :: nat

definition toPaddedHex :: "nat \<Rightarrow> string" where
  "toPaddedHex n = replicate (8 - length (toString16 n)) (CHR ''0'') @ toString16 n"

definition TValPointer_toString :: "TValPointer \<Rightarrow> string" where
  "TValPointer_toString p =
     (if ptr_size p = 4 then ''0x'' @ toPaddedHex (lopart p)
      else ''0x'' @ toPaddedHex (hipart p) @ toPaddedHex (lopart p))"

definition TValObject_toString :: "nat \<Rightarrow> TValPointer \<Rightarrow> string" where
  "TValObject_toString classID ptr =
     ''{ cls: '' @ showNat classID @ '', ptr: '' @ TValPointer_toString ptr @ '' }''"

datatype DValue =
    VString string
  | VObject nat TValPointer
  | VUndefined
  | VOther string

text \<open>
  Modelled from the spec: the class id \<open>HObjectClassID.OBJECT\<close> and the table
  \<open>HObjectClassNames\<close>, which the session reads from \<^verbatim>\<open>DukConsts.ts\<close>, are not among its
  declarations in the sources at hand. The class id of the generic objects and the names
  of the other classes are parameters here.
\<close>

record DukConsts =
  classOBJECT :: nat
  HObjectClassNames :: "nat \<Rightarrow> string"

definition String_of :: "DValue \<Rightarrow> string" where
  "String_of v =
     (case v of
        VString s \<Rightarrow> s
      | VObject c p \<Rightarrow> TValObject_toString c p
      | VUndefined \<Rightarrow> ''undefined''
      | VOther s \<Rightarrow> s)"

record DukEvalResponse =
  success :: bool
  result :: DValue

record DukGetHeapObjInfoResponse =
  hi_properties :: "(string \<times> DValue) list"
  maxPropDescRange :: int

subsection \<open>Strings and sorting of JavaScript\<close>

text \<open>
  \<open>indexOf\<close> is -1 when the pattern does not occur. \<open>substring\<close> clamps both bounds
  to the string and swaps them when the first is the larger one.
\<close>

definition indexOf :: "string \<Rightarrow> string \<Rightarrow> int" where
  "indexOf s pat =
     (case filter (\<lambda>i. take (length pat) (drop i s) = pat) [0..<Suc (length s)] of
        [] \<Rightarrow> -1
      | i # _ \<Rightarrow> int i)"

definition substring :: "string \<Rightarrow> int \<Rightarrow> int \<Rightarrow> string" where
  "substring s a b =
     (let len = int (length s);
          a' = max 0 (min a len);
          b' = max 0 (min b len)
      in take (nat (max a' b' - min a' b')) (drop (nat (min a' b')) s))"

text \<open>
  \<open>Array.prototype.sort\<close> with a comparator belongs to the engine. For a comparator that
  orders the elements consistently every engine returns the elements in an order the
  comparator agrees with; the model is the stable insertion sort.
\<close>

fun insertBy :: "('a \<Rightarrow> 'a \<Rightarrow> int) \<Rightarrow> 'a \<Rightarrow> 'a list \<Rightarrow> 'a list" where
  "insertBy cmp x [] = [x]"
| "insertBy cmp x (y # ys) = (if cmp x y \<le> 0 then x # y # ys else y # insertBy cmp x ys)"

definition Array_sort :: "('a \<Rightarrow> 'a \<Rightarrow> int) \<Rightarrow> 'a list \<Rightarrow> 'a list" where
  "Array_sort cmp xs = foldr (insertBy cmp) xs []"

subsection \<open>Call stack\<close>

record DukCallStackEntry =
  cs_fileName :: string
  cs_funcName :: string
  cs_lineNumber :: int
  cs_pc :: nat

text \<open>
  A frame in the response: handle, label, source (name, path and reference), line, column.
\<close>

type_synonym FrameOut = "nat \<times> string \<times> (string \<times> string \<times> int) option \<times> int \<times> nat"

subsection \<open>The objects of one pause\<close>

text \<open>
  Stack frames, scopes and property sets refer to each other. Each of them is stored in one
  of the three \<open>Handles\<close> tables of the client state when it is created, and the model
  refers to it by that handle.
\<close>

datatype PropertySetType = Scope | Object | Artificials

record Variable =
  v_name :: string
  v_value :: string
  variablesReference :: nat

record PropertySet =
  ps_type :: PropertySetType
  ps_handle :: nat
  ps_scope :: "nat option"
  displayName :: "string option"
  heapPtr :: "TValPointer option"
  variables :: "Variable list option"

record DukScope =
  sc_handle :: nat
  sc_name :: string
  sc_stackFrame :: "nat option"
  properties :: "nat option"

record DukStackFrame =
  fr_handle :: nat
  fr_source :: "SourceFile option"
  fr_fileName :: string
  fr_filePath :: string
  funcName :: string
  lineNumber :: int
  fr_pc :: nat
  depth :: int
  klass :: "string option"
  fr_scopes :: "nat list option"

text \<open>
  \<open>Handles\<close> of the debug-adapter library: a counter that starts at 1000 and a table.
  \<open>create\<close> stores the value under the next number; \<open>get\<close> looks a number up.
\<close>

record 'a Handles =
  nextHandle :: nat
  handleMap :: "(nat \<times> 'a) list"

definition Handles_new :: "'a Handles" where
  "Handles_new = \<lparr>nextHandle = 1000, handleMap = []\<rparr>"

definition Handles_create :: "'a \<Rightarrow> 'a Handles \<Rightarrow> 'a Handles" where
  "Handles_create v h =
     \<lparr>nextHandle = Suc (nextHandle h), handleMap = handleMap h @ [(nextHandle h, v)]\<rparr>"

definition Handles_get :: "'a Handles \<Rightarrow> nat \<Rightarrow> 'a option" where
  "Handles_get h k = map_of (handleMap h) k"

text \<open>Assignment to a field of an object stored in the table.\<close>

definition Handles_modify :: "nat \<Rightarrow> ('a \<Rightarrow> 'a) \<Rightarrow> 'a Handles \<Rightarrow> 'a Handles" where
  "Handles_modify k f h =
     h\<lparr>handleMap := map (\<lambda>(k', v). if k' = k then (k', f v) else (k', v)) (handleMap h)\<rparr>"

record DbgClientState =
  paused :: bool
  ptrHandles :: "(string \<times> nat) list"
  varHandles :: "PropertySet Handles"
  stackFrames :: "DukStackFrame Handles"
  scopes :: "DukScope Handles"

definition reset :: "DbgClientState" where
  "reset = \<lparr>paused = False, ptrHandles = [], varHandles = Handles_new,
            stackFrames = Handles_new, scopes = Handles_new\<rparr>"

subsection \<open>Variables\<close>

text \<open>
  The comparator of \<open>returnVars\<close>. \<open>Number_of\<close> stands for JavaScript's \<open>Number\<close> on a
  name: \<open>None\<close> when the result is \<open>NaN\<close>, else the number, in a type ordered as the
  numbers are. Names are compared as JavaScript compares strings, unit by unit.
\<close>

definition compareVars ::
  "(string \<Rightarrow> 'n::linorder option) \<Rightarrow> Variable \<Rightarrow> Variable \<Rightarrow> int" where
  "compareVars Number_of a b =
     (case (Number_of (v_name a), Number_of (v_name b)) of
        (None, Some bNum) \<Rightarrow> -1
      | (Some aNum, None) \<Rightarrow> 1
      | (Some aNum, Some bNum) \<Rightarrow> (if aNum < bNum then -1 else if aNum > bNum then 1 else 0)
      | (None, None) \<Rightarrow>
          (if v_name a < v_name b then -1 else if v_name a > v_name b then 1 else 0))"

text \<open>
  The order the listing is meant to have, as a relation between an earlier and a later
  name: a name that is no number before one that is, two names that are no numbers in
  lexicographic order, two numbers in ascending order.
\<close>

definition namesInOrder :: "(string \<Rightarrow> 'n::linorder option) \<Rightarrow> string \<Rightarrow> string \<Rightarrow> bool" where
  "namesInOrder Number_of a b =
     (case (Number_of a, Number_of b) of
        (None, None) \<Rightarrow> a \<le> b
      | (None, Some y) \<Rightarrow> True
      | (Some x, None) \<Rightarrow> False
      | (Some x, Some y) \<Rightarrow> x \<le> y)"

text \<open>The array that \<open>returnVars\<close> hands to the response.\<close>

definition returnVars ::
  "(string \<Rightarrow> 'n::linorder option) \<Rightarrow> PropertySetType \<Rightarrow> Variable list \<Rightarrow> Variable list" where
  "returnVars Number_of t vars =
     (if t \<noteq> Artificials then Array_sort (compareVars Number_of) vars else vars)"

subsection \<open>Traffic with the front end and with the runtime\<close>

datatype DukStatusState = Running | Paused

record DukStatusNotification =
  st_state :: DukStatusState
  st_filename :: string
  st_funcname :: string
  st_linenumber :: int
  st_pc :: int

datatype DebugEvent =
    StoppedEvent string nat
  | ContinuedEvent nat bool
  | OutputEvent string "string option"

datatype ResponseBody =
    NoBody
  | BreakpointsBody "(bool \<times> int) list"
  | StackFramesBody "FrameOut list"
  | ScopesBody "(string \<times> nat \<times> bool) list"
  | VariablesBody "Variable list"

text \<open>
  What a handler hands to the front end: a response, an error response (code and message)
  or an event. \<open>Thrown\<close> records that the handler ended there with an exception nobody
  caught or with a promise rejection nobody handled.
\<close>

datatype Out =
    SendResponse ResponseBody
  | SendErrorResponse nat string
  | SendEvent DebugEvent
  | Thrown error

datatype Command =
    CmdResume
  | CmdPause
  | CmdStepOver
  | CmdStepInto
  | CmdStepOut
  | CmdRemoveBreakpoint "nat option"
  | CmdSetBreakpoint string int
  | CmdEval string "int option"
  | CmdLocalVariables int
  | CmdCallStack
  | CmdInspectHeapObj TValPointer
  | CmdGetObjPropDescRange TValPointer int int

text \<open>
  The runtime answers each command with a reply or with an error, which rejects the
  promise of the request (\<open>False\<close>, \<open>None\<close>). The answer may depend on every command
  written to the socket before.
\<close>

record Runtime =
  ack :: "Command list \<Rightarrow> Command \<Rightarrow> bool"
  evalReply :: "Command list \<Rightarrow> string \<Rightarrow> int option \<Rightarrow> DukEvalResponse option"
  localsReply :: "Command list \<Rightarrow> int \<Rightarrow> string list option"
  heapInfoReply :: "Command list \<Rightarrow> TValPointer \<Rightarrow> DukGetHeapObjInfoResponse option"
  propRangeReply :: "Command list \<Rightarrow> TValPointer \<Rightarrow> int \<Rightarrow> (string \<times> DValue) list option"
  callStackReply :: "Command list \<Rightarrow> DukCallStackEntry list option"

subsection \<open>The session\<close>

text \<open>
  The fields of \<open>DukDebugSession\<close> that the handlers below read or write, and two traces:
  \<open>sent\<close>, the commands written to the runtime, and \<open>out\<close>, what was handed to the front
  end. \<open>args_sourceMaps\<close> is \<open>_args.sourceMaps\<close>; \<open>sourceMapsSet\<close> says that
  \<open>_sourceMaps\<close> holds the service. The objects \<open>_sources\<close> and \<open>_sourceToGen\<close> are
  lists of key and value in the order the keys were first written.
\<close>

record Session =
  args_sourceMaps :: bool
  sourceMapsSet :: bool
  sources :: "(string \<times> SourceFile) list"
  sourceToGen :: "(string \<times> SourceFile) list"
  nextSourceID :: nat
  breakpoints :: BreakPointMap
  sourceRoot :: string
  outDir :: string
  dbgState :: DbgClientState
  awaitingInitialStatus :: bool
  initialStatus :: "DukStatusNotification option"
  expectingBreak :: string
  sent :: "Command list"
  out :: "Out list"

definition THREAD_ID :: nat where
  "THREAD_ID = 1"

definition RequestFailed :: nat where
  "RequestFailed = 100"

definition emit :: "Out \<Rightarrow> Session \<Rightarrow> Session" where
  "emit x s = s\<lparr>out := out s @ [x]\<rparr>"

definition requestFailedResponse :: "string \<Rightarrow> Session \<Rightarrow> Session" where
  "requestFailedResponse msg s =
     emit (SendErrorResponse RequestFailed (''Request failed: '' @ msg)) s"

text \<open>Writing a command to the socket.\<close>

definition send :: "Command \<Rightarrow> Session \<Rightarrow> Session" where
  "send c s = s\<lparr>sent := sent s @ [c]\<rparr>"

subsection \<open>mapSourceFile and unmapSourceFile\<close>

text \<open>Property assignment \<open>obj[k] = v\<close>.\<close>

fun objSet :: "string \<Rightarrow> 'a \<Rightarrow> (string \<times> 'a) list \<Rightarrow> (string \<times> 'a) list" where
  "objSet k v [] = [(k, v)]"
| "objSet k v ((k', v') # kvs) =
     (if k' = k then (k, v) # kvs else (k', v') # objSet k v kvs)"

text \<open>The loop \<open>for (k in sources)\<close> that looks for a value with the given name.\<close>

fun findByName :: "(string \<times> SourceFile) list \<Rightarrow> string \<Rightarrow> SourceFile option" where
  "findByName [] n = None"
| "findByName ((k, v) # kvs) n = (if sf_name v = n then Some v else findByName kvs n)"

text \<open>The key under which \<open>sources[src.id]\<close> is stored is \<open>showNat\<close> of the id.\<close>

text \<open>
  The \<open>try\<close> block of \<open>mapSourceFile\<close>. \<open>checkForSourceMap\<close> returns at once without
  source maps; otherwise it asks the service. Calling a service that was never created and
  reading \<open>generatedPath()\<close> of a missing map both throw, which the \<open>catch\<close> swallows.
  With a map, every source of the map is entered into \<open>_sourceToGen\<close>.
\<close>

definition checkForSourceMap :: "Env \<Rightarrow> Session \<Rightarrow> SourceFile \<Rightarrow> SourceFile" where
  "checkForSourceMap env s src =
     (if \<not> args_sourceMaps s then src
      else if \<not> sourceMapsSet s then src
      else case MapPathFromSource env (sf_path src) of
             None \<Rightarrow> src
           | Some m \<Rightarrow> src\<lparr>srcMapPath := Some (generatedPath m), srcMap := Some m\<rparr>)"

fun registerSources ::
  "Env \<Rightarrow> string \<Rightarrow> SourceFile \<Rightarrow> string list \<Rightarrow> (string \<times> SourceFile) list
     \<Rightarrow> (string \<times> SourceFile) list" where
  "registerSources env root src [] s2g = s2g"
| "registerSources env root src (p # ps) s2g =
     registerSources env root src ps
       (objSet (path_normalize env (path_join env root p)) src s2g)"

text \<open>The path \<open>mapSourceFile\<close> probes for a name that is not registered yet.\<close>

definition probePath :: "Env \<Rightarrow> Session \<Rightarrow> string \<Rightarrow> string" where
  "probePath env s name =
     (if args_sourceMaps s
      then normPath env (path_join env (outDir s) name)
      else normPath env (path_join env (sourceRoot s) name))"

definition mapSourceFile :: "Env \<Rightarrow> string \<Rightarrow> Session \<Rightarrow> SourceFile option \<times> Session" where
  "mapSourceFile env name0 s =
     (if name0 = [] then (None, s)
      else
        let name = normPath env name0 in
        case findByName (sources s) name of
          Some v \<Rightarrow> (Some v, s)
        | None \<Rightarrow>
            let fpath = probePath env s name in
            if \<not> existsSync env fpath then (None, s)
            else
              let src = checkForSourceMap env s
                          \<lparr>sf_id = nextSourceID s, sf_name = name, sf_path = fpath,
                           srcMapPath = None, srcMap = None\<rparr> in
              (Some src,
               s\<lparr>nextSourceID := Suc (nextSourceID s),
                 sources := objSet name src (objSet (showNat (nextSourceID s)) src (sources s)),
                 sourceToGen :=
                   (case srcMap src of
                      None \<Rightarrow> sourceToGen s
                    | Some m \<Rightarrow>
                        registerSources env (sourceRoot s) src (sm_sources m) (sourceToGen s))\<rparr>))"

text \<open>
  JavaScript's \<open>toLowerCase\<close> on the ASCII letters and \<open>lastIndexOf\<close>, which is -1 when
  the pattern does not occur.
\<close>

definition toLowerCase :: "string \<Rightarrow> string" where
  "toLowerCase s =
     map (\<lambda>c. if CHR ''A'' \<le> c \<and> c \<le> CHR ''Z'' then char_of (of_char c + (32::nat)) else c) s"

definition lastIndexOf :: "string \<Rightarrow> string \<Rightarrow> int" where
  "lastIndexOf s pat =
     (case filter (\<lambda>i. take (length pat) (drop i s) = pat) (rev [0..<Suc (length s)]) of
        [] \<Rightarrow> -1
      | i # _ \<Rightarrow> int i)"

text \<open>
  The loop of \<open>unmapSourceFile\<close> over the files of the output directory: files for which
  \<open>lastIndexOf(".js")\<close> differs from the length minus 3 and directories are skipped;
  the first file that \<open>mapSourceFile\<close> resolves is returned.
\<close>

fun mapFirst :: "Env \<Rightarrow> string list \<Rightarrow> Session \<Rightarrow> SourceFile option \<times> Session" where
  "mapFirst env [] s = (None, s)"
| "mapFirst env (f # files) s =
     (if lastIndexOf (toLowerCase f) ''.js'' \<noteq> int (length f) - 3 then mapFirst env files s
      else if isDirectory env (path_join env (outDir s) f) then mapFirst env files s
      else case mapSourceFile env f s of
             (Some src, s') \<Rightarrow> (Some src, s')
           | (None, s') \<Rightarrow> mapFirst env files s')"

definition unmapSourceFile ::
  "Env \<Rightarrow> string \<Rightarrow> Session \<Rightarrow> (error + SourceFile option) \<times> Session" where
  "unmapSourceFile env path0 s =
     (let path = path_normalize env path0;
          name = path_basename env path in
      if \<not> sourceMapsSet s then
        (case mapSourceFile env name s of (r, s') \<Rightarrow> (Inr r, s'))
      else case map_of (sourceToGen s) path of
             Some src \<Rightarrow> (Inr (Some src), s)
           | None \<Rightarrow>
               (case readdirSync env (outDir s) of
                  None \<Rightarrow> (Inl FsError, s)
                | Some files \<Rightarrow>
                    (case mapFirst env files s of (r, s') \<Rightarrow> (Inr r, s'))))"

text \<open>
  A file \<open>v\<close> is cached under the name \<open>nn\<close>: \<open>_sources[nn]\<close> is \<open>v\<close>, \<open>v\<close> carries that name,
  and no other value of \<open>_sources\<close> does. Ids and names are keys of the same object.
\<close>

definition cachedAs :: "Session \<Rightarrow> string \<Rightarrow> SourceFile \<Rightarrow> bool" where
  "cachedAs s nn v \<longleftrightarrow>
     map_of (sources s) nn = Some v \<and> sf_name v = nn
     \<and> (\<forall>(k, v') \<in> set (sources s). sf_name v' = nn \<longrightarrow> v' = v)"

subsection \<open>The status notification\<close>

text \<open>
  The listener for \<open>nfy_status\<close>. Until the initial status has been stored, a notification
  is at most stored. Afterwards a paused status looks for a breakpoint at the stop
  location, replaces the client state, reports the stop and sets the pending reason back;
  a running status reports the continuation if the session was paused.
\<close>

definition lookForBreakpoint ::
  "Env \<Rightarrow> DukStatusNotification \<Rightarrow> Session \<Rightarrow> error option \<times> Session" where
  "lookForBreakpoint env status s =
     (case mapSourceFile env (st_filename status) s of
        (None, s1) \<Rightarrow> (None, s1)
      | (Some sourceFile, s1) \<Rightarrow>
          (let ln = convertDebuggerLineToClient env (st_linenumber status);
               pos = generated2Source env sourceFile ln in
           (case find_bp (breakpoints s1) (pos_fileName pos) (pos_line pos) of
              Inl e \<Rightarrow> (Some e, s1)
            | Inr None \<Rightarrow> (None, s1)
            | Inr (Some bp) \<Rightarrow> (None, s1\<lparr>expectingBreak := ''breakpoint''\<rparr>))))"

definition on_nfy_status :: "Env \<Rightarrow> DukStatusNotification \<Rightarrow> Session \<Rightarrow> Session" where
  "on_nfy_status env status s =
     (if initialStatus s = None then
        (if awaitingInitialStatus s
         then s\<lparr>initialStatus := Some status, awaitingInitialStatus := False\<rparr>
         else s)
      else if st_state status = Paused then
        (case lookForBreakpoint env status s of
           (Some e, s1) \<Rightarrow> emit (Thrown e) s1
         | (None, s1) \<Rightarrow>
             (emit (SendEvent (StoppedEvent (expectingBreak s1) THREAD_ID))
                (s1\<lparr>dbgState := reset\<lparr>paused := True\<rparr>\<rparr>))
             \<lparr>expectingBreak := ''debugger''\<rparr>)
      else
        (let s1 = (if paused (dbgState s)
                   then emit (SendEvent (ContinuedEvent THREAD_ID True)) s else s)
         in s1\<lparr>dbgState := (dbgState s1)\<lparr>paused := False\<rparr>\<rparr>))"

text \<open>The listener for \<open>nfy_throw\<close>: it logs the exception and sets the pending reason.\<close>

definition on_nfy_throw :: "string \<Rightarrow> Session \<Rightarrow> Session" where
  "on_nfy_throw msg s =
     (emit (SendEvent (OutputEvent msg (Some ''stderr''))) s)\<lparr>expectingBreak := ''Exception''\<rparr>"

subsection \<open>continue, next, stepIn, stepOut and pause\<close>

definition continueRequest :: "Runtime \<Rightarrow> Session \<Rightarrow> Session" where
  "continueRequest rt s =
     (if paused (dbgState s) then
        (if ack rt (sent s) CmdResume
         then emit (SendResponse NoBody) (send CmdResume s)
         else requestFailedResponse [] (send CmdResume s))
      else requestFailedResponse ''Not paused.'' s)"

text \<open>
  The three step requests differ in the pending reason and in the command. The reply of
  the runtime is ignored; the response is sent at once.
\<close>

definition stepRequest :: "string \<Rightarrow> Command \<Rightarrow> Session \<Rightarrow> Session" where
  "stepRequest reason cmd s =
     (if \<not> paused (dbgState s) then requestFailedResponse ''Not paused.'' s
      else emit (SendResponse NoBody) (send cmd (s\<lparr>expectingBreak := reason\<rparr>)))"

definition nextRequest :: "Session \<Rightarrow> Session" where
  "nextRequest = stepRequest ''step'' CmdStepOver"

definition stepInRequest :: "Session \<Rightarrow> Session" where
  "stepInRequest = stepRequest ''stepin'' CmdStepInto"

definition stepOutRequest :: "Session \<Rightarrow> Session" where
  "stepOutRequest = stepRequest ''stepout'' CmdStepOut"

definition pauseRequest :: "Session \<Rightarrow> Session" where
  "pauseRequest s =
     (if \<not> paused (dbgState s)
      then emit (SendResponse NoBody) (send CmdPause (s\<lparr>expectingBreak := ''pause''\<rparr>))
      else requestFailedResponse ''Already paused.'' s)"

subsection \<open>setBreakPointsRequest\<close>

text \<open>
  \<open>doRemoveBreakpoints\<close>: one delete command after the other. The handler-less \<open>.catch()\<close>
  that follows each request passes a rejection on, so the first rejected request rejects the
  whole chain.
\<close>

fun doRemoveBreakpoints ::
  "Runtime \<Rightarrow> DukBreakPoint list \<Rightarrow> Session \<Rightarrow> error option \<times> Session" where
  "doRemoveBreakpoints rt [] s = (None, s)"
| "doRemoveBreakpoints rt (b # remBPs) s =
     (if ack rt (sent s) (CmdRemoveBreakpoint (dukIdx b))
      then doRemoveBreakpoints rt remBPs (send (CmdRemoveBreakpoint (dukIdx b)) s)
      else (Some (Rejected ''requestRemoveBreakpoint''),
            send (CmdRemoveBreakpoint (dukIdx b)) s))"

text \<open>
  \<open>doAddBreakpoints\<close>: the generated name is set only when the source file has a source
  map; without a name the breakpoint is skipped. A reply appends the breakpoint to
  \<open>successBPs\<close>; a rejection passes the handler-less \<open>.catch()\<close> and rejects the chain.
\<close>

fun doAddBreakpoints ::
  "Runtime \<Rightarrow> SourceFile \<Rightarrow> string \<Rightarrow> DukBreakPoint list \<Rightarrow> DukBreakPoint list \<Rightarrow> Session
     \<Rightarrow> error option \<times> DukBreakPoint list \<times> Session" where
  "doAddBreakpoints rt src fp [] successBPs s = (None, successBPs, s)"
| "doAddBreakpoints rt src fp (bp # addBPs) successBPs s =
     (let pos = source2Generated src fp (line bp) in
      if srcMap src = None \<or> pos_fileName pos = []
      then doAddBreakpoints rt src fp addBPs successBPs s
      else if ack rt (sent s) (CmdSetBreakpoint (pos_fileName pos) (pos_line pos))
      then doAddBreakpoints rt src fp addBPs (successBPs @ [bp])
             (send (CmdSetBreakpoint (pos_fileName pos) (pos_line pos)) s)
      else (Some (Rejected ''requestSetBreakpoint''), successBPs,
            send (CmdSetBreakpoint (pos_fileName pos) (pos_line pos)) s))"

text \<open>The three lists the request computes from the lines asked for and the map.\<close>

definition addBPs_of :: "string \<Rightarrow> int list \<Rightarrow> DukBreakPoint list \<Rightarrow> DukBreakPoint list" where
  "addBPs_of fp inLines fileBPs =
     map (DukBreakPoint_new fp)
       (filter (\<lambda>a. firstOrNull fileBPs (\<lambda>b. Inr (a = line b)) = Inr None) inLines)"

definition remBPs_of :: "int list \<Rightarrow> DukBreakPoint list \<Rightarrow> DukBreakPoint list" where
  "remBPs_of inLines fileBPs =
     filter (\<lambda>a. firstOrNull inLines (\<lambda>b. Inr (line a = b)) = Inr None) fileBPs"

definition persistBPs_of :: "DukBreakPoint list \<Rightarrow> DukBreakPoint list \<Rightarrow> DukBreakPoint list" where
  "persistBPs_of remBPs fileBPs =
     filter (\<lambda>a. firstOrNull remBPs (\<lambda>b. Inr (line a = line b)) = Inr None) fileBPs"

text \<open>
  The last \<open>then\<close> of the request: update the map, then answer with the persisting and
  the added breakpoints. An exception in it rejects the promise, and nobody handles that.
\<close>

definition updateAndRespond ::
  "DukBreakPoint list \<Rightarrow> DukBreakPoint list \<Rightarrow> DukBreakPoint list \<Rightarrow> Session \<Rightarrow> Session" where
  "updateAndRespond remBPs persistBPs successBPs s =
     (case removeBreakpoints remBPs (breakpoints s) of
        (Some e, bps) \<Rightarrow> emit (Thrown e) (s\<lparr>breakpoints := bps\<rparr>)
      | (None, bps) \<Rightarrow>
          (case addBreakpoints successBPs bps of
             (Some e, bps') \<Rightarrow> emit (Thrown e) (s\<lparr>breakpoints := bps'\<rparr>)
           | (None, bps') \<Rightarrow>
               emit (SendResponse
                       (BreakpointsBody (map (\<lambda>b. (True, line b)) (persistBPs @ successBPs))))
                    (s\<lparr>breakpoints := bps'\<rparr>)))"

definition setBreakPointsRequest ::
  "Env \<Rightarrow> Runtime \<Rightarrow> string \<Rightarrow> int list \<Rightarrow> Session \<Rightarrow> Session" where
  "setBreakPointsRequest env rt path lines s =
     (let fp = path_normalize env path in
      case unmapSourceFile env fp s of
        (Inl e, s1) \<Rightarrow> emit (Thrown e) s1
      | (Inr None, s1) \<Rightarrow> emit (SendErrorResponse 0 ''SetBreakPoint failed'') s1
      | (Inr (Some src), s1) \<Rightarrow>
          (case getBreakpointsForFile (path_normalize env) (breakpoints s1) fp of
             Inl e \<Rightarrow> emit (Thrown e) s1
           | Inr fileBPs \<Rightarrow>
               (let inLines = map (convertClientLineToDebugger env) lines;
                    addBPs = addBPs_of fp inLines fileBPs;
                    remBPs = remBPs_of inLines fileBPs;
                    persistBPs = persistBPs_of remBPs fileBPs in
                case doRemoveBreakpoints rt remBPs s1 of
                  (Some e, s2) \<Rightarrow> emit (Thrown e) s2
                | (None, s2) \<Rightarrow>
                    (case doAddBreakpoints rt src fp addBPs [] s2 of
                       (Some e, successBPs, s3) \<Rightarrow> emit (Thrown e) s3
                     | (None, successBPs, s3) \<Rightarrow>
                         updateAndRespond remBPs persistBPs successBPs s3))))"

subsection \<open>Access to the objects of the client state\<close>

definition updDbg :: "(DbgClientState \<Rightarrow> DbgClientState) \<Rightarrow> Session \<Rightarrow> Session" where
  "updDbg f s = s\<lparr>dbgState := f (dbgState s)\<rparr>"

definition getPropSet :: "Session \<Rightarrow> nat \<Rightarrow> PropertySet option" where
  "getPropSet s h = Handles_get (varHandles (dbgState s)) h"

definition modPropSet :: "nat \<Rightarrow> (PropertySet \<Rightarrow> PropertySet) \<Rightarrow> Session \<Rightarrow> Session" where
  "modPropSet h f = updDbg (\<lambda>d. d\<lparr>varHandles := Handles_modify h f (varHandles d)\<rparr>)"

definition createPropSet :: "PropertySet \<Rightarrow> Session \<Rightarrow> Session" where
  "createPropSet p = updDbg (\<lambda>d. d\<lparr>varHandles := Handles_create p (varHandles d)\<rparr>)"

text \<open>The property set with the handle is in the table.\<close>

definition stored :: "Session \<Rightarrow> nat \<Rightarrow> bool" where
  "stored s h = (getPropSet s h \<noteq> None)"

text \<open>\<open>scope.stackFrame.depth\<close>, which throws when the scope or its frame is missing.\<close>

definition depthOf :: "Session \<Rightarrow> nat option \<Rightarrow> error + int" where
  "depthOf s sc =
     (case sc of
        None \<Rightarrow> Inl TypeError
      | Some sh \<Rightarrow>
          (case Handles_get (scopes (dbgState s)) sh of
             None \<Rightarrow> Inl TypeError
           | Some scope \<Rightarrow>
               (case sc_stackFrame scope of
                  None \<Rightarrow> Inl TypeError
                | Some fh \<Rightarrow>
                    (case Handles_get (stackFrames (dbgState s)) fh of
                       None \<Rightarrow> Inl TypeError
                     | Some fr \<Rightarrow> Inr (depth fr)))))"

text \<open>\<open>propSet.variables.push(variable)\<close> and the later assignment to its \<open>value\<close>.\<close>

definition pushVariable :: "nat \<Rightarrow> Variable \<Rightarrow> Session \<Rightarrow> Session" where
  "pushVariable h v =
     modPropSet h (\<lambda>p. p\<lparr>variables :=
                          Some ((case variables p of None \<Rightarrow> [] | Some vs \<Rightarrow> vs) @ [v])\<rparr>)"

definition varsOf :: "Session \<Rightarrow> nat \<Rightarrow> Variable list" where
  "varsOf s h =
     (case getPropSet s h of
        None \<Rightarrow> []
      | Some p \<Rightarrow> (case variables p of None \<Rightarrow> [] | Some vs \<Rightarrow> vs))"

definition setValue :: "nat \<Rightarrow> nat \<Rightarrow> string \<Rightarrow> Session \<Rightarrow> Session" where
  "setValue h i val =
     modPropSet h (\<lambda>p. p\<lparr>variables :=
                          map_option (\<lambda>vs. vs[i := (vs ! i)\<lparr>v_value := val\<rparr>]) (variables p)\<rparr>)"

text \<open>
  \<open>requestEval\<close>: the command is written, and the reply is the runtime's answer to it
  after the commands written before.
\<close>

definition requestEval ::
  "Runtime \<Rightarrow> string \<Rightarrow> int option \<Rightarrow> Session \<Rightarrow> DukEvalResponse option \<times> Session" where
  "requestEval rt exp d s = (evalReply rt (sent s) exp d, send (CmdEval exp d) s)"

subsection \<open>isGlobalObjectByName and getObjectConstructorByName\<close>

text \<open>
  \<open>isGlobalObjectByName\<close> rejects when the evaluation reports failure. When the request
  itself is rejected, its second handler creates a rejected promise without returning it,
  so the result is \<open>undefined\<close>, which the callers read as "not global".
\<close>

definition isGlobalObjectByName ::
  "Runtime \<Rightarrow> string \<Rightarrow> int \<Rightarrow> Session \<Rightarrow> (error + bool) \<times> Session" where
  "isGlobalObjectByName rt prefix stackDepth s =
     (case requestEval rt (''String('' @ prefix @ '')'') (Some stackDepth) s of
        (None, s1) \<Rightarrow> (Inr False, s1)
      | (Some r, s1) \<Rightarrow>
          (if \<not> success r then (Inl (Rejected ''failed''), s1)
           else (Inr (result r = VString ''[object global]''), s1)))"

definition getObjectConstructorByName ::
  "Runtime \<Rightarrow> string \<Rightarrow> int \<Rightarrow> Session \<Rightarrow> (error + string) \<times> Session" where
  "getObjectConstructorByName rt prefix stackDepth s =
     (case isGlobalObjectByName rt prefix stackDepth s of
        (Inl e, s1) \<Rightarrow> (Inr [], s1)
      | (Inr True, s1) \<Rightarrow> (Inr [], s1)
      | (Inr False, s1) \<Rightarrow>
          (case requestEval rt
                  (''('' @ prefix @ ''.constructor.toString().match(/'' @ [CHR 0x5C] @ ''w+/g)[1])'')
                  (Some stackDepth) s1 of
             (None, s2) \<Rightarrow> (Inr [], s2)
           | (Some r, s2) \<Rightarrow>
               (Inr (if success r then String_of (result r) else []), s2)))"

subsection \<open>resolvePropertySetVariables\<close>

text \<open>
  One pass of the first loop, for one key and its value. The variable is pushed to the
  property set \<open>h\<close>. For an object reference the pointer cache decides: a cached set gives
  its handle, and its display name when that is a non-empty string; otherwise a new set is
  created and cached, named by the class table unless the class is the generic one. The
  objects left without a name get a \<open>toString()\<close> evaluation: the entry of \<open>objVars\<close> is
  the position of the variable, its name, its reference and the reply.
\<close>

type_synonym ToStrPending = "nat \<times> string \<times> nat \<times> DukEvalResponse option"

definition askToString ::
  "Runtime \<Rightarrow> nat \<Rightarrow> int \<Rightarrow> string \<Rightarrow> nat \<Rightarrow> ToStrPending list \<times> Session
     \<Rightarrow> ToStrPending list \<times> Session" where
  "askToString rt h stackDepth key ref acc =
     (case acc of (pend, s) \<Rightarrow>
        (case requestEval rt (key @ ''.toString()'') (Some stackDepth) s of
           (r, s1) \<Rightarrow> (pend @ [(length (varsOf s h) - 1, key, ref, r)], s1)))"

definition resolveOne ::
  "DukConsts \<Rightarrow> Runtime \<Rightarrow> nat \<Rightarrow> nat option \<Rightarrow> int \<Rightarrow> ToStrPending list \<times> Session
     \<Rightarrow> string \<times> DValue \<Rightarrow> ToStrPending list \<times> Session" where
  "resolveOne dc rt h scope stackDepth acc kv =
     (case acc of (pend, s) \<Rightarrow>
      (case kv of (key, value) \<Rightarrow>
        (case value of
           VObject classID ptr \<Rightarrow>
             (let ptrStr = TValPointer_toString ptr in
              case map_of (ptrHandles (dbgState s)) ptrStr of
                Some oh \<Rightarrow>
                  (case (case getPropSet s oh of None \<Rightarrow> None | Some op \<Rightarrow> displayName op) of
                     Some d \<Rightarrow>
                       (if d \<noteq> []
                        then (pend, pushVariable h
                                      \<lparr>v_name = key, v_value = d, variablesReference = oh\<rparr> s)
                        else askToString rt h stackDepth key oh
                               (pend, pushVariable h
                                        \<lparr>v_name = key, v_value = [], variablesReference = oh\<rparr> s))
                   | None \<Rightarrow>
                       askToString rt h stackDepth key oh
                         (pend, pushVariable h
                                  \<lparr>v_name = key, v_value = [], variablesReference = oh\<rparr> s))
              | None \<Rightarrow>
                  (let oh = nextHandle (varHandles (dbgState s));
                       objPropSet = \<lparr>ps_type = Object, ps_handle = oh, ps_scope = scope,
                                     displayName = None, heapPtr = Some ptr, variables = None\<rparr>;
                       s1 = updDbg (\<lambda>d. d\<lparr>ptrHandles := objSet ptrStr oh (ptrHandles d)\<rparr>)
                              (createPropSet objPropSet s)
                   in if classID \<noteq> classOBJECT dc
                      then (pend,
                            pushVariable h
                              \<lparr>v_name = key, v_value = HObjectClassNames dc classID,
                               variablesReference = oh\<rparr>
                              (modPropSet oh
                                 (\<lambda>p. p\<lparr>displayName := Some (HObjectClassNames dc classID)\<rparr>) s1))
                      else askToString rt h stackDepth key oh
                             (pend, pushVariable h
                                      \<lparr>v_name = key, v_value = [], variablesReference = oh\<rparr> s1)))
         | VString str \<Rightarrow>
             (pend, pushVariable h
                      \<lparr>v_name = key, v_value = [CHR 0x22] @ str @ [CHR 0x22],
                       variablesReference = 0\<rparr> s)
         | _ \<Rightarrow>
             (pend, pushVariable h
                      \<lparr>v_name = key, v_value = String_of value, variablesReference = 0\<rparr> s))))"

text \<open>
  The handler of the \<open>toString()\<close> replies, for one reply: the name is the text of the
  result, or \<open>Object\<close> when the evaluation failed. A name that contains \<open>[object\<close> is either
  exactly \<open>[object Object]\<close>, and then the constructor name is asked for, or it is cut from
  position 8 to the last character. The name is stored as the display name of the set
  and as the value of the variable.
\<close>

type_synonym CtorPending = "nat \<times> DukEvalResponse option"

definition displayNameFor :: "DukEvalResponse \<Rightarrow> string" where
  "displayNameFor r =
     (let rName = (if success r then String_of (result r) else ''Object'') in
      if indexOf rName ''[object'' \<ge> 0 \<and> rName \<noteq> ''[object Object]''
      then substring rName 8 (int (length rName) - 1)
      else rName)"

definition applyToString ::
  "Runtime \<Rightarrow> nat \<Rightarrow> CtorPending list \<times> Session
     \<Rightarrow> nat \<times> string \<times> nat \<times> DukEvalResponse \<Rightarrow> CtorPending list \<times> Session" where
  "applyToString rt h acc p =
     (case acc of (ctors, s) \<Rightarrow>
      (case p of (i, name, ref, r) \<Rightarrow>
        (let rName = (if success r then String_of (result r) else ''Object'');
             asked = (if indexOf rName ''[object'' \<ge> 0 \<and> rName = ''[object Object]''
                      then (case requestEval rt (''String('' @ name @ ''.constructor.name)'') None s of
                              (c, s1) \<Rightarrow> (ctors @ [(i, c)], s1))
                      else (ctors, s))
         in (fst asked,
             setValue h i (displayNameFor r)
               (modPropSet ref (\<lambda>q. q\<lparr>displayName := Some (displayNameFor r)\<rparr>)
                  (snd asked))))))"

text \<open>
  The handler of the constructor replies, for one reply: a successful result becomes the
  value of the variable. The code casts the result to a string without converting it;
  the model records the text of a result that is not a string.
\<close>

definition applyCtor ::
  "nat \<Rightarrow> Session \<Rightarrow> nat \<times> DukEvalResponse \<Rightarrow> Session" where
  "applyCtor h s p =
     (case p of (i, r) \<Rightarrow>
        if success r then setValue h i (String_of (result r)) s else s)"

text \<open>\<open>Promise.all\<close>: the replies when none is a rejection.\<close>

definition allReplies :: "('a \<times> 'b option) list \<Rightarrow> ('a \<times> 'b) list option" where
  "allReplies ps =
     (if \<forall>p \<in> set ps. snd p \<noteq> None then Some (map (\<lambda>p. (fst p, the (snd p))) ps) else None)"

definition allToStr ::
  "ToStrPending list \<Rightarrow> (nat \<times> string \<times> nat \<times> DukEvalResponse) list option" where
  "allToStr ps =
     (if \<forall>p \<in> set ps. snd (snd (snd p)) \<noteq> None
      then Some (map (\<lambda>(i, n, ref, r). (i, n, ref, the r)) ps) else None)"

definition resolvePropertySetVariables ::
  "DukConsts \<Rightarrow> Runtime \<Rightarrow> (string \<times> DValue) list \<Rightarrow> nat \<Rightarrow> Session \<Rightarrow> error option \<times> Session" where
  "resolvePropertySetVariables dc rt kvs h s =
     (case getPropSet s h of
        None \<Rightarrow> (Some TypeError, s)
      | Some propSet \<Rightarrow>
          (case depthOf s (ps_scope propSet) of
             Inl e \<Rightarrow> (Some e, s)
           | Inr stackDepth \<Rightarrow>
               (let s0 = (if variables propSet = None
                          then modPropSet h (\<lambda>p. p\<lparr>variables := Some []\<rparr>) s else s) in
                case foldl (resolveOne dc rt h (ps_scope propSet) stackDepth) ([], s0) kvs of
                  (pend, s1) \<Rightarrow>
                    (if pend = [] then (None, s1)
                     else case allToStr pend of
                            None \<Rightarrow> (Some (Rejected ''requestEval''), s1)
                          | Some toStrResults \<Rightarrow>
                              (case foldl (applyToString rt h) ([], s1) toStrResults of
                                 (ctors, s2) \<Rightarrow>
                                   (if ctors = [] then (None, s2)
                                    else case allReplies ctors of
                                           None \<Rightarrow> (Some (Rejected ''requestEval''), s2)
                                         | Some ctorNameResp \<Rightarrow>
                                             (None, foldl (applyCtor h) s2 ctorNameResp)))))))"

subsection \<open>expandScopeProperties and expandPropertySubset\<close>

text \<open>The evaluations of all keys, written one after the other before any reply is read.\<close>

fun evalAll ::
  "Runtime \<Rightarrow> int \<Rightarrow> string list \<Rightarrow> Session
     \<Rightarrow> (string \<times> DukEvalResponse option) list \<times> Session" where
  "evalAll rt d [] s = ([], s)"
| "evalAll rt d (k # keys) s =
     (case requestEval rt k (Some d) s of
        (r, s1) \<Rightarrow> (case evalAll rt d keys s1 of (rs, s2) \<Rightarrow> ((k, r) # rs, s2)))"

text \<open>
  \<open>expandScopeProperties\<close> creates the property set of the scope, evaluates the keys,
  drops the keys whose evaluation failed and resolves the rest. Its \<open>catch\<close> turns every
  rejection into the property set as it is then. Only the read of
  \<open>scope.stackFrame.depth\<close> for the first key can throw out of it.
\<close>

definition expandScopeProperties ::
  "DukConsts \<Rightarrow> Runtime \<Rightarrow> string list \<Rightarrow> nat \<Rightarrow> Session \<Rightarrow> (error + nat) \<times> Session" where
  "expandScopeProperties dc rt keys sh s =
     (let ph = nextHandle (varHandles (dbgState s));
          s1 = updDbg (\<lambda>d. d\<lparr>scopes :=
                               Handles_modify sh (\<lambda>sc. sc\<lparr>properties := Some ph\<rparr>) (scopes d)\<rparr>)
                 (createPropSet
                    \<lparr>ps_type = Scope, ps_handle = ph, ps_scope = Some sh, displayName = None,
                     heapPtr = None, variables = Some []\<rparr> s)
      in if keys = [] then (Inr ph, s1)
         else case depthOf s1 (Some sh) of
                Inl e \<Rightarrow> (Inl e, s1)
              | Inr d \<Rightarrow>
                  (case evalAll rt d keys s1 of
                     (rs, s2) \<Rightarrow>
                       (case allReplies rs of
                          None \<Rightarrow> (Inr ph, s2)
                        | Some results \<Rightarrow>
                            (let kvs = map (\<lambda>(k, r). (k, result r))
                                         (filter (\<lambda>(k, r). success r) results)
                             in if kvs = [] then (Inr ph, s2)
                                else (Inr ph,
                                      snd (resolvePropertySetVariables dc rt kvs ph s2))))))"

text \<open>
  \<open>expandPropertySubset\<close> for an object set that has not been expanded: the heap object
  is inspected, its artificial properties become a set of their own, reachable through the
  variable \<open>__artificial\<close>, and its own properties, without the undefined ones, are
  resolved. A rejected request rejects the expansion.
\<close>

definition expandPropertySubset ::
  "DukConsts \<Rightarrow> Runtime \<Rightarrow> nat \<Rightarrow> Session \<Rightarrow> (error + Variable list) \<times> Session" where
  "expandPropertySubset dc rt h s =
     (case getPropSet s h of
        None \<Rightarrow> (Inl TypeError, s)
      | Some propSet \<Rightarrow>
          (case ps_type propSet of
             Scope \<Rightarrow> (Inr [], s)
           | Artificials \<Rightarrow> (Inr (varsOf s h), s)
           | Object \<Rightarrow>
               (case variables propSet of
                  Some vs \<Rightarrow> (Inr vs, s)
                | None \<Rightarrow>
                    (case heapPtr propSet of
                       None \<Rightarrow> (Inl TypeError, modPropSet h (\<lambda>p. p\<lparr>variables := Some []\<rparr>) s)
                     | Some ptr \<Rightarrow>
                         (let s1 = send (CmdInspectHeapObj ptr)
                                     (modPropSet h (\<lambda>p. p\<lparr>variables := Some []\<rparr>) s) in
                          case heapInfoReply rt (sent s) ptr of
                            None \<Rightarrow> (Inl (Rejected ''requestInspectHeapObj''), s1)
                          | Some r \<Rightarrow>
                              (let ah = nextHandle (varHandles (dbgState s1));
                                   s2 = pushVariable h
                                          \<lparr>v_name = ''__artificial'', v_value = ''{...}'',
                                           variablesReference = ah\<rparr>
                                          (createPropSet
                                             \<lparr>ps_type = Artificials, ps_handle = ah,
                                              ps_scope = ps_scope propSet, displayName = None,
                                              heapPtr = None,
                                              variables =
                                                Some (map (\<lambda>(k, v). \<lparr>v_name = k,
                                                                       v_value = String_of v,
                                                                       variablesReference = 0\<rparr>)
                                                        (hi_properties r))\<rparr> s1)
                               in if maxPropDescRange r < 1 then (Inr (varsOf s2 h), s2)
                                  else
                                    (let s3 = send (CmdGetObjPropDescRange ptr 0
                                                      (maxPropDescRange r)) s2 in
                                     case propRangeReply rt (sent s2) ptr (maxPropDescRange r) of
                                       None \<Rightarrow> (Inl (Rejected ''requestGetObjPropDescRange''), s3)
                                     | Some props \<Rightarrow>
                                         (case resolvePropertySetVariables dc rt
                                                 (filter (\<lambda>(k, v). v \<noteq> VUndefined) props) h s3 of
                                            (Some e, s4) \<Rightarrow> (Inl e, s4)
                                          | (None, s4) \<Rightarrow> (Inr (varsOf s4 h), s4)))))))))"

subsection \<open>stackTraceRequest\<close>

fun buildFrames ::
  "Env \<Rightarrow> nat \<Rightarrow> DukCallStackEntry list \<Rightarrow> Session \<Rightarrow> nat list \<times> Session" where
  "buildFrames env i [] s = ([], s)"
| "buildFrames env i (entry # callStack) s =
     (case mapSourceFile env (cs_fileName entry) s of
        (srcFile, s1) \<Rightarrow>
          (let ln = convertDebuggerLineToClient env (cs_lineNumber entry);
               srcPos = (case srcFile of
                           Some sf \<Rightarrow> generated2Source env sf ln
                         | None \<Rightarrow> \<lparr>pos_path = cs_fileName entry,
                                     pos_fileName = cs_fileName entry, pos_line = ln\<rparr>);
               fh = nextHandle (stackFrames (dbgState s1));
               s2 = updDbg (\<lambda>d. d\<lparr>stackFrames :=
                                    Handles_create
                                      \<lparr>fr_handle = fh, fr_source = srcFile,
                                       fr_fileName = pos_fileName srcPos,
                                       fr_filePath = pos_path srcPos,
                                       funcName = cs_funcName entry,
                                       lineNumber = pos_line srcPos, fr_pc = cs_pc entry,
                                       depth = - int i - 1, klass = None, fr_scopes = None\<rparr>
                                      (stackFrames d)\<rparr>) s1
           in case buildFrames env (Suc i) callStack s2 of (hs, s3) \<Rightarrow> (fh # hs, s3)))"

text \<open>\<open>doApplyConstructors\<close>: one frame after the other.\<close>

fun doApplyConstructors ::
  "Runtime \<Rightarrow> nat list \<Rightarrow> Session \<Rightarrow> error option \<times> Session" where
  "doApplyConstructors rt [] s = (None, s)"
| "doApplyConstructors rt (fh # hs) s =
     (case Handles_get (stackFrames (dbgState s)) fh of
        None \<Rightarrow> (Some TypeError, s)
      | Some fr \<Rightarrow>
          (case getObjectConstructorByName rt ''this'' (depth fr) s of
             (Inl e, s1) \<Rightarrow> (Some e, s1)
           | (Inr c, s1) \<Rightarrow>
               doApplyConstructors rt hs
                 (updDbg (\<lambda>d. d\<lparr>stackFrames :=
                                  Handles_modify fh (\<lambda>f. f\<lparr>klass := Some c\<rparr>) (stackFrames d)\<rparr>)
                    s1)))"

definition frameOut :: "DukStackFrame \<Rightarrow> FrameOut" where
  "frameOut fr =
     (fr_handle fr,
      (case klass fr of None \<Rightarrow> ''undefined.'' | Some k \<Rightarrow> if k = [] then [] else k @ ''.'')
        @ (if funcName fr = [] then ''(anonymous function)'' else funcName fr @ ''()'')
        @ '' : '' @ showNat (fr_pc fr),
      (if fr_source fr = None then None
       else Some (fr_fileName fr, fr_filePath fr, lineNumber fr)),
      lineNumber fr, fr_pc fr)"

definition stackTraceRequest :: "Env \<Rightarrow> Runtime \<Rightarrow> Session \<Rightarrow> Session" where
  "stackTraceRequest env rt s =
     (if \<not> paused (dbgState s)
      then requestFailedResponse ''Attempted to obtain stack trace while running.'' s
      else case callStackReply rt (sent s) of
             None \<Rightarrow> emit (SendResponse (StackFramesBody [])) (send CmdCallStack s)
           | Some callStack \<Rightarrow>
               (case buildFrames env 0 callStack (send CmdCallStack s) of
                  (hs, s1) \<Rightarrow>
                    (case doApplyConstructors rt hs s1 of
                       (Some e, s2) \<Rightarrow> emit (Thrown e) s2
                     | (None, s2) \<Rightarrow>
                         emit (SendResponse
                                 (StackFramesBody
                                    (List.map_filter
                                       (\<lambda>fh. map_option frameOut
                                                (Handles_get (stackFrames (dbgState s2)) fh))
                                       hs)))
                              s2)))"

subsection \<open>scopesRequest\<close>

text \<open>
  \<open>scopesRequest\<close> asserts that the session is paused and hands over to
  \<open>scopeRequestForLocals\<close>. The \<open>catch\<close> at the end of its promise chain stores an empty
  list of scopes in the response and returns, without sending the response.
\<close>

definition scopeRequestForLocals :: "DukConsts \<Rightarrow> Runtime \<Rightarrow> nat \<Rightarrow> Session \<Rightarrow> Session" where
  "scopeRequestForLocals dc rt stackFrameHdl s =
     (let stackFrame = Handles_get (stackFrames (dbgState s)) stackFrameHdl;
          sh = nextHandle (scopes (dbgState s));
          s1 = updDbg (\<lambda>d. d\<lparr>scopes :=
                               Handles_create
                                 \<lparr>sc_handle = sh, sc_name = ''Local'',
                                  sc_stackFrame = map_option (\<lambda>f. stackFrameHdl) stackFrame,
                                  properties = None\<rparr>
                                 (scopes d)\<rparr>) s
      in case stackFrame of
           None \<Rightarrow> emit (Thrown TypeError) s1
         | Some fr \<Rightarrow>
             (let s2 = send (CmdLocalVariables (depth fr))
                         (updDbg (\<lambda>d. d\<lparr>stackFrames :=
                                          Handles_modify stackFrameHdl
                                            (\<lambda>f. f\<lparr>fr_scopes := Some [sh]\<rparr>) (stackFrames d)\<rparr>)
                            s1)
              in case localsReply rt (sent s1) (depth fr) of
                   None \<Rightarrow> s2
                 | Some names \<Rightarrow>
                     (case isGlobalObjectByName rt ''this'' (depth fr) s2 of
                        (Inl e, s3) \<Rightarrow> s3
                      | (Inr isGlobal, s3) \<Rightarrow>
                          (case expandScopeProperties dc rt
                                  (if isGlobal then names else ''this'' # names) sh s3 of
                             (Inl e, s4) \<Rightarrow> s4
                           | (Inr ph, s4) \<Rightarrow>
                               emit (SendResponse (ScopesBody [(''Local'', ph, False)])) s4))))"

definition scopesRequest :: "DukConsts \<Rightarrow> Runtime \<Rightarrow> nat \<Rightarrow> Session \<Rightarrow> Session" where
  "scopesRequest dc rt frameId s =
     (if \<not> paused (dbgState s) then emit (Thrown AssertionError) s
      else scopeRequestForLocals dc rt frameId s)"

subsection \<open>variablesRequest\<close>

text \<open>
  \<open>returnVars\<close> sorts the array it is given in place, which is the array of the property
  set \<open>owner\<close>, and sends it.
\<close>

definition respondVars ::
  "(string \<Rightarrow> 'n::linorder option) \<Rightarrow> PropertySetType \<Rightarrow> nat \<Rightarrow> Variable list \<Rightarrow> Session
     \<Rightarrow> Session" where
  "respondVars Number_of t owner vars s =
     emit (SendResponse (VariablesBody (returnVars Number_of t vars)))
       (if t \<noteq> Artificials
        then modPropSet owner (\<lambda>p. p\<lparr>variables := Some (returnVars Number_of t vars)\<rparr>) s
        else s)"

definition variablesRequest ::
  "(string \<Rightarrow> 'n::linorder option) \<Rightarrow> DukConsts \<Rightarrow> Runtime \<Rightarrow> nat \<Rightarrow> Session \<Rightarrow> Session" where
  "variablesRequest Number_of dc rt ref s =
     (if ref = 0 then emit (Thrown AssertionError) s
      else case getPropSet s ref of
             None \<Rightarrow> emit (SendResponse (VariablesBody [])) s
           | Some properties' \<Rightarrow>
               (case (case ps_scope properties' of
                        None \<Rightarrow> None
                      | Some sh \<Rightarrow> Handles_get (scopes (dbgState s)) sh) of
                  None \<Rightarrow> emit (Thrown TypeError) s
                | Some scope \<Rightarrow>
                    (if ps_type properties' = Scope then
                       (case properties scope of
                          None \<Rightarrow> emit (Thrown TypeError) s
                        | Some ph \<Rightarrow>
                            (case (case getPropSet s ph of
                                     None \<Rightarrow> None | Some p \<Rightarrow> variables p) of
                               None \<Rightarrow> emit (Thrown TypeError) s
                             | Some vars \<Rightarrow> respondVars Number_of Scope ph vars s))
                     else
                       (case expandPropertySubset dc rt ref s of
                          (Inl e, s1) \<Rightarrow> emit (Thrown e) s1
                        | (Inr objVars, s1) \<Rightarrow>
                            respondVars Number_of (ps_type properties') ref
                              objVars s1))))"

subsection \<open>An example session\<close>

text \<open>
  A session attached with source maps: the generated file \<^verbatim>\<open>/out/main.js\<close> has a source
  map with the one source \<^verbatim>\<open>main.ts\<close> under the source root \<^verbatim>\<open>/proj\<close>, and line 20 of
  the source is line 25 of the generated file. Paths are plain POSIX paths, so the path
  functions are concatenation with a slash and the text after the last slash.
\<close>

definition exMap :: SourceMap where
  "exMap = \<lparr>sm_sources = [''main.ts''], generatedPath = ''/out/main.js'',
            originalPositionFor = (\<lambda>l. if l = 25 then Some (''/proj/main.ts'', 20) else None),
            generatedPositionFor =
              (\<lambda>p l. if p = ''/proj/main.ts'' \<and> l = 20 then Some 25
                      else if p = ''/proj/main.ts'' \<and> l = 10 then Some 12 else None)\<rparr>"

definition exEnv :: Env where
  "exEnv = \<lparr>path_normalize = (\<lambda>p. p),
            path_join = (\<lambda>a b. a @ ''/'' @ b),
            path_basename = (\<lambda>p. rev (takeWhile (\<lambda>c. c \<noteq> CHR ''/'') (rev p))),
            existsSync = (\<lambda>p. p = ''/out/main.js''),
            readdirSync = (\<lambda>d. if d = ''/out'' then Some [''main.js''] else None),
            isDirectory = (\<lambda>p. False),
            MapPathFromSource = (\<lambda>p. if p = ''/out/main.js'' then Some exMap else None),
            convertDebuggerLineToClient = (\<lambda>l. l),
            convertClientLineToDebugger = (\<lambda>l. l)\<rparr>"

definition exStatus :: "DukStatusState \<Rightarrow> int \<Rightarrow> DukStatusNotification" where
  "exStatus st ln = \<lparr>st_state = st, st_filename = ''main.js'', st_funcname = ''f'',
                     st_linenumber = ln, st_pc = 0\<rparr>"

text \<open>The session as \<open>finalizeInit\<close> leaves it, after the initial status has arrived.\<close>

definition exSession :: Session where
  "exSession = \<lparr>args_sourceMaps = True, sourceMapsSet = True, sources = [], sourceToGen = [],
                nextSourceID = 1, breakpoints = [], sourceRoot = ''/proj'', outDir = ''/out'',
                dbgState = reset, awaitingInitialStatus = False,
                initialStatus = Some (exStatus Running 1), expectingBreak = ''debugger'',
                sent = [], out = []\<rparr>"

text \<open>
  A runtime that acknowledges every command. The stack has one frame, in the function
  \<open>f\<close> of \<^verbatim>\<open>main.js\<close>; its locals are \<open>a\<close>, \<open>b\<close> and \<open>n\<close>, where \<open>a\<close> and \<open>b\<close> refer
  to the same generic object and \<open>n\<close> is the number 42. The object has the own properties
  \<open>b\<close>, \<open>2\<close>, \<open>a\<close> and \<open>10\<close> and one artificial property.
\<close>

definition exPtr :: TValPointer where
  "exPtr = \<lparr>ptr_size = 4, lopart = 4096, hipart = 0\<rparr>"

definition exConsts :: DukConsts where
  "exConsts = \<lparr>classOBJECT = 10,
               HObjectClassNames = (\<lambda>c. if c = 2 then ''Array'' else ''Other'')\<rparr>"

definition exEval :: "string \<Rightarrow> DukEvalResponse option" where
  "exEval e =
     (if e = ''String(this)'' then Some \<lparr>success = True, result = VString ''[object global]''\<rparr>
      else if e = ''a'' \<or> e = ''b'' then Some \<lparr>success = True, result = VObject 10 exPtr\<rparr>
      else if e = ''n'' then Some \<lparr>success = True, result = VOther ''42''\<rparr>
      else if e = ''a.toString()'' \<or> e = ''b.toString()''
        then Some \<lparr>success = True, result = VString ''[object Object]''\<rparr>
      else if e = ''String(a.constructor.name)'' \<or> e = ''String(b.constructor.name)''
        then Some \<lparr>success = True, result = VString ''Foo''\<rparr>
      else Some \<lparr>success = False, result = VUndefined\<rparr>)"

definition exRuntime :: Runtime where
  "exRuntime = \<lparr>ack = (\<lambda>h c. True),
                evalReply = (\<lambda>h e d. exEval e),
                localsReply = (\<lambda>h d. Some [''a'', ''b'', ''n'']),
                heapInfoReply =
                  (\<lambda>h p. Some \<lparr>hi_properties = [(''prototype'', VOther ''null''),
                                                   (''class'', VOther ''10'')],
                                  maxPropDescRange = 4\<rparr>),
                propRangeReply =
                  (\<lambda>h p n. Some [(''b'', VString ''s''), (''2'', VOther ''7''),
                                  (''a'', VOther ''true''), (''10'', VOther ''1'')]),
                callStackReply =
                  (\<lambda>h. Some [\<lparr>cs_fileName = ''main.js'', cs_funcName = ''f'',
                                  cs_lineNumber = 25, cs_pc = 3\<rparr>])\<rparr>"

text \<open>\<open>Number\<close> on the names of the example: the value of a string of decimal digits.\<close>

definition exNumber :: "string \<Rightarrow> nat option" where
  "exNumber s =
     (if s \<noteq> [] \<and> (\<forall>c \<in> set s. c \<in> set ''0123456789'')
      then Some (foldl (\<lambda>n c. 10 * n + (of_char c - 48)) 0 s) else None)"

text \<open>
  The example session paused: the status has arrived and the front end has asked for the
  stack trace (\<open>exStack\<close>), then for the scopes of the frame 1000 (\<open>exPaused\<close>).
\<close>

definition exStack :: Session where
  "exStack =
     stackTraceRequest exEnv exRuntime
       (on_nfy_status exEnv (exStatus Paused 25) exSession)"

definition exPaused :: Session where
  "exPaused = scopesRequest exConsts exRuntime 1000 exStack"

section \<open>Properties of the breakpoint map\<close>

lemma resetIDs_numbered:
  "None \<notin> set bps \<Longrightarrow> fst (resetIDs i bps) = None \<and> numberedFrom i (snd (resetIDs i bps))"
proof (induction bps arbitrary: i)
  case Nil
  then show ?case by simp
next
  case (Cons a bps)
  then obtain b where a: "a = Some b" by (cases a) auto
  from Cons.prems have "None \<notin> set bps" by simp
  from Cons.IH [OF this, of "Suc i"] a show ?case
    by (simp add: split_beta)
qed

lemma spliceNulls_no_null: "None \<notin> set (spliceNulls bps)"
  by (induction bps rule: spliceNulls.induct) auto

lemma numberedFrom_no_null: "numberedFrom i bps \<Longrightarrow> None \<notin> set bps"
  by (induction i bps rule: numberedFrom.induct) auto

lemma addBreakpoints_numbered:
  "None \<notin> set bps \<Longrightarrow>
     fst (addBreakpoints addList bps) = None \<and> numberedFrom 0 (snd (addBreakpoints addList bps))"
  unfolding addBreakpoints_def by (rule resetIDs_numbered) auto

lemma removeBreakpoints_numbered:
  "fst (removeBreakpoints remList bps) = None \<Longrightarrow>
     numberedFrom 0 (snd (removeBreakpoints remList bps))"
  unfolding removeBreakpoints_def
  by (auto split: prod.splits option.splits
           simp: resetIDs_numbered [OF spliceNulls_no_null])

text \<open>
  C2. After every \<open>addBreakpoints\<close> and \<open>removeBreakpoints\<close> each entry's \<open>dukIdx\<close> is its
  position, \<open>removeBreakpoints\<close> deleting exactly the entries of its argument. The code
  does not do this when the argument names two entries in map order: after the first
  entry has been replaced by \<open>null\<close>, the scan for the second one starts at index 0 again,
  reads \<open>dukIdx\<close> of the \<open>null\<close> slot and throws. The map is left holding \<open>null\<close> and is
  not renumbered.
\<close>

theorem removeBreakpoints_two_entries_throws:
  "addBreakpoints [DukBreakPoint_new ''/p/a.ts'' 10, DukBreakPoint_new ''/p/a.ts'' 20] []
     = (None, [Some \<lparr>filePath = ''/p/a.ts'', dukIdx = Some 0, line = 10\<rparr>,
               Some \<lparr>filePath = ''/p/a.ts'', dukIdx = Some 1, line = 20\<rparr>])
   \<and> removeBreakpoints
       [\<lparr>filePath = ''/p/a.ts'', dukIdx = Some 0, line = 10\<rparr>,
        \<lparr>filePath = ''/p/a.ts'', dukIdx = Some 1, line = 20\<rparr>]
       [Some \<lparr>filePath = ''/p/a.ts'', dukIdx = Some 0, line = 10\<rparr>,
        Some \<lparr>filePath = ''/p/a.ts'', dukIdx = Some 1, line = 20\<rparr>]
     = (Some TypeError,
        [None, Some \<lparr>filePath = ''/p/a.ts'', dukIdx = Some 1, line = 20\<rparr>])"
  by (simp add: addBreakpoints_def removeBreakpoints_def DukBreakPoint_new_def)

section \<open>Properties of the source-file registry\<close>

lemma set_objSet: "set (objSet k v kvs) \<subseteq> insert (k, v) (set kvs)"
  by (induction kvs) (auto split: if_splits)

lemma map_of_objSet: "map_of (objSet k v kvs) k' = (if k' = k then Some v else map_of kvs k')"
  by (induction kvs) auto

lemma objSet_mem: "(k, v) \<in> set (objSet k v kvs)"
  by (induction kvs) auto

lemma findByName_None_iff:
  "findByName kvs n = None \<longleftrightarrow> (\<forall>(k, v) \<in> set kvs. sf_name v \<noteq> n)"
  by (induction kvs) (auto split: if_splits)

lemma findByName_Some_mem:
  "findByName kvs n = Some v \<Longrightarrow> (\<exists>k. (k, v) \<in> set kvs) \<and> sf_name v = n"
  by (induction kvs) (auto split: if_splits)

text \<open>
  When every registered value of the name is \<open>v\<close> and \<open>v\<close> is registered, the loop
  finds \<open>v\<close>, in whatever order it visits the keys.
\<close>

lemma findByName_unique:
  assumes "\<forall>(k', v') \<in> set kvs. sf_name v' = n \<longrightarrow> v' = v"
    and "(k, v) \<in> set kvs" and "sf_name v = n"
  shows "findByName kvs n = Some v"
proof (cases "findByName kvs n")
  case None
  with assms show ?thesis by (auto simp: findByName_None_iff)
next
  case (Some w)
  from findByName_Some_mem [OF this] assms(1) show ?thesis using Some by auto
qed

lemma findByName_registered:
  assumes "findByName kvs n = None" and "sf_name v = n"
  shows "findByName (objSet n v (objSet i v kvs)) n = Some v"
proof (rule findByName_unique)
  show "(n, v) \<in> set (objSet n v (objSet i v kvs))" by (rule objSet_mem)
  show "sf_name v = n" by fact
  have "set (objSet n v (objSet i v kvs)) \<subseteq> insert (n, v) (insert (i, v) (set kvs))"
    using set_objSet [of n v "objSet i v kvs"] set_objSet [of i v kvs] by auto
  with assms(1)
  show "\<forall>(k', v') \<in> set (objSet n v (objSet i v kvs)). sf_name v' = n \<longrightarrow> v' = v"
    by (auto simp: findByName_None_iff)
qed

lemma sf_name_checkForSourceMap [simp]: "sf_name (checkForSourceMap env s src) = sf_name src"
  by (simp add: checkForSourceMap_def split: option.splits)

lemma mapSourceFile_None:
  "fst (mapSourceFile env n s) = None \<Longrightarrow> snd (mapSourceFile env n s) = s"
  by (auto simp: mapSourceFile_def Let_def split: option.splits if_splits)

lemma mapSourceFile_again:
  "mapSourceFile env n (snd (mapSourceFile env n s)) = mapSourceFile env n s"
proof (cases "n = []")
  case True
  then show ?thesis by (simp add: mapSourceFile_def)
next
  case False
  show ?thesis
  proof (cases "findByName (sources s) (normPath env n)")
    case (Some v)
    with False show ?thesis by (simp add: mapSourceFile_def)
  next
    case None
    show ?thesis
    proof (cases "existsSync env (probePath env s (normPath env n))")
      case no: False
      with False None show ?thesis by (simp add: mapSourceFile_def)
    next
      case True
      define src where "src = checkForSourceMap env s
                          \<lparr>sf_id = nextSourceID s, sf_name = normPath env n,
                           sf_path = probePath env s (normPath env n),
                           srcMapPath = None, srcMap = None\<rparr>"
      have nm: "sf_name src = normPath env n" by (simp add: src_def)
      have reg: "findByName
                   (objSet (normPath env n) src
                      (objSet (showNat (nextSourceID s)) src (sources s)))
                   (normPath env n) = Some src"
        by (rule findByName_registered [OF None nm])
      from False None True reg show ?thesis
        by (simp add: mapSourceFile_def Let_def src_def [symmetric])
    qed
  qed
qed

lemma mapFirst_None:
  "fst (mapFirst env files s) = None \<Longrightarrow> snd (mapFirst env files s) = s"
proof (induction files arbitrary: s)
  case Nil
  then show ?case by simp
next
  case (Cons f files)
  show ?case
  proof (cases "mapSourceFile env f s")
    case (Pair r s')
    show ?thesis
    proof (cases r)
      case None
      with Pair have "s' = s" using mapSourceFile_None [of env f s] by simp
      with Cons Pair None show ?thesis by (simp split: if_splits)
    next
      case (Some src)
      with Cons Pair show ?thesis by (simp split: if_splits)
    qed
  qed
qed

lemma unmapSourceFile_None:
  "snd (unmapSourceFile env p s) = s" if "fst (unmapSourceFile env p s) = Inr None"
proof (cases "sourceMapsSet s")
  case False
  with that mapSourceFile_None [of env "path_basename env (path_normalize env p)" s]
  show ?thesis
    by (auto simp: unmapSourceFile_def Let_def split: prod.splits)
next
  case True
  show ?thesis
  proof (cases "map_of (sourceToGen s) (path_normalize env p)")
    case (Some src)
    with True show ?thesis by (simp add: unmapSourceFile_def Let_def)
  next
    case None
    show ?thesis
    proof (cases "readdirSync env (outDir s)")
      case no: None
      with True None show ?thesis by (simp add: unmapSourceFile_def Let_def)
    next
      case (Some files)
      with True None that mapFirst_None [of env files s] show ?thesis
        by (auto simp: unmapSourceFile_def Let_def split: prod.splits)
    qed
  qed
qed

text \<open>The key of an id consists of digits.\<close>

lemma showNat_digits: "set (showNat i) \<subseteq> set ''0123456789''"
proof (induction i rule: showNat.induct)
  case (1 n)
  have d: "\<And>k. k < 10 \<Longrightarrow> ''0123456789'' ! k \<in> set ''0123456789''"
    by (rule nth_mem) simp
  show ?case
  proof (cases "n < 10")
    case True
    with d [of n] show ?thesis by (subst showNat.simps) simp
  next
    case False
    with 1 d [of "n mod 10"] show ?thesis by (subst showNat.simps) auto
  qed
qed

lemma cachedAs_found: "cachedAs s nn v \<Longrightarrow> findByName (sources s) nn = Some v"
  unfolding cachedAs_def
  by (auto intro!: findByName_unique [where k = nn] dest: map_of_SomeD)

lemma mapSourceFile_keeps_cached:
  assumes "cachedAs s nn v" and "\<forall>i. nn \<noteq> showNat i"
  shows "cachedAs (snd (mapSourceFile env m s)) nn v"
proof (cases "m = [] \<or> findByName (sources s) (normPath env m) \<noteq> None
              \<or> \<not> existsSync env (probePath env s (normPath env m))")
  case True
  then have "snd (mapSourceFile env m s) = s"
    by (auto simp: mapSourceFile_def Let_def split: option.splits)
  with assms(1) show ?thesis by simp
next
  case False
  define mm where "mm = normPath env m"
  define src where "src = checkForSourceMap env s
                          \<lparr>sf_id = nextSourceID s, sf_name = mm, sf_path = probePath env s mm,
                           srcMapPath = None, srcMap = None\<rparr>"
  from False have miss: "findByName (sources s) mm = None" by (simp add: mm_def)
  with cachedAs_found [OF assms(1)] have ne: "mm \<noteq> nn" by auto
  have nm: "sf_name src = mm" by (simp add: src_def)
  from False have so: "sources (snd (mapSourceFile env m s))
             = objSet mm src (objSet (showNat (nextSourceID s)) src (sources s))"
    by (simp add: mapSourceFile_def Let_def mm_def src_def)
  have sub: "set (objSet mm src (objSet (showNat (nextSourceID s)) src (sources s)))
               \<subseteq> insert (mm, src) (insert (showNat (nextSourceID s), src) (set (sources s)))"
    using set_objSet [of mm src "objSet (showNat (nextSourceID s)) src (sources s)"]
          set_objSet [of "showNat (nextSourceID s)" src "sources s"] by auto
  from assms ne have "map_of (objSet mm src (objSet (showNat (nextSourceID s)) src (sources s))) nn
            = Some v"
    by (simp add: map_of_objSet cachedAs_def)
  moreover from assms(1) sub nm ne
  have "\<forall>(k, v') \<in> set (objSet mm src (objSet (showNat (nextSourceID s)) src (sources s))).
           sf_name v' = nn \<longrightarrow> v' = v"
    unfolding cachedAs_def by fastforce
  ultimately show ?thesis using assms(1) so by (simp add: cachedAs_def)
qed

lemma mapSourceFile_registers:
  assumes "fst (mapSourceFile env n s) = Some v"
  shows "cachedAs (snd (mapSourceFile env n s)) (normPath env n) v \<or>
         (findByName (sources s) (normPath env n) = Some v \<and> snd (mapSourceFile env n s) = s)"
proof (cases "findByName (sources s) (normPath env n)")
  case (Some w)
  with assms show ?thesis by (auto simp: mapSourceFile_def Let_def split: if_splits)
next
  case None
  define nn where "nn = normPath env n"
  define src where "src = checkForSourceMap env s
                          \<lparr>sf_id = nextSourceID s, sf_name = nn, sf_path = probePath env s nn,
                           srcMapPath = None, srcMap = None\<rparr>"
  from assms None have v: "v = src"
    and so: "sources (snd (mapSourceFile env n s))
             = objSet nn src (objSet (showNat (nextSourceID s)) src (sources s))"
    by (auto simp: mapSourceFile_def Let_def nn_def src_def split: if_splits)
  have nm: "sf_name src = nn" by (simp add: src_def)
  have sub: "set (objSet nn src (objSet (showNat (nextSourceID s)) src (sources s)))
               \<subseteq> insert (nn, src) (insert (showNat (nextSourceID s), src) (set (sources s)))"
    using set_objSet [of nn src "objSet (showNat (nextSourceID s)) src (sources s)"]
          set_objSet [of "showNat (nextSourceID s)" src "sources s"] by auto
  from None have "\<forall>(k, v') \<in> set (sources s). sf_name v' \<noteq> nn"
    by (simp add: findByName_None_iff nn_def)
  with sub have "\<forall>(k, v') \<in> set (objSet nn src (objSet (showNat (nextSourceID s)) src (sources s))).
           sf_name v' = nn \<longrightarrow> v' = src" by fastforce
  with so nm v show ?thesis
    by (simp add: cachedAs_def map_of_objSet nn_def [symmetric])
qed

text \<open>
  Calls for other names in between do not disturb a cached file, as long as its name is
  not the decimal text of a number: such a name is also the key of some id.
\<close>

lemma mapSourceFile_cache_persists:
  assumes "cachedAs s (normPath env n) v" and "n \<noteq> []" and "\<forall>i. normPath env n \<noteq> showNat i"
  shows "fst (mapSourceFile env n (foldl (\<lambda>s m. snd (mapSourceFile env m s)) s ms)) = Some v"
  using assms(1)
proof (induction ms arbitrary: s)
  case Nil
  from cachedAs_found [OF Nil] assms(2) show ?case
    by (simp add: mapSourceFile_def)
next
  case (Cons m ms)
  from mapSourceFile_keeps_cached [OF Cons.prems assms(3), of env m]
  have "cachedAs (snd (mapSourceFile env m s)) (normPath env n) v" .
  from Cons.IH [OF this] show ?case by simp
qed

text \<open>
  C10. \<open>mapSourceFile\<close> is idempotent and caching. A second call with the same name
  returns what the first call returned and leaves the session as the first call left it:
  the same \<open>SourceFile\<close> with the same id, no new entry in \<open>_sources\<close>, the id counter not
  incremented. For a name that is not registered and whose probed path does not exist, the
  call returns \<open>null\<close> and registers nothing. A file that a call has registered is also
  what a later call for its name returns after any calls for other names, as long as the
  name is not the decimal text of a number.
\<close>

theorem mapSourceFile_idempotent:
  "fst (mapSourceFile env n (snd (mapSourceFile env n s))) = fst (mapSourceFile env n s)
   \<and> snd (mapSourceFile env n (snd (mapSourceFile env n s))) = snd (mapSourceFile env n s)
   \<and> (findByName (sources s) (normPath env n) = None
        \<and> \<not> existsSync env (probePath env s (normPath env n))
      \<longrightarrow> mapSourceFile env n s = (None, s))
   \<and> (findByName (sources s) (normPath env n) = None
        \<and> fst (mapSourceFile env n s) = Some v
        \<and> (\<forall>i. normPath env n \<noteq> showNat i)
      \<longrightarrow> fst (mapSourceFile env n
                 (foldl (\<lambda>s m. snd (mapSourceFile env m s)) (snd (mapSourceFile env n s)) ms))
            = Some v)"
proof (intro conjI impI)
  assume h: "findByName (sources s) (normPath env n) = None
        \<and> fst (mapSourceFile env n s) = Some v
        \<and> (\<forall>i. normPath env n \<noteq> showNat i)"
  then have ne: "n \<noteq> []" by (auto simp: mapSourceFile_def)
  from h mapSourceFile_registers [of env n s v]
  have "cachedAs (snd (mapSourceFile env n s)) (normPath env n) v" by auto
  from mapSourceFile_cache_persists [OF this ne] h
  show "fst (mapSourceFile env n
                 (foldl (\<lambda>s m. snd (mapSourceFile env m s)) (snd (mapSourceFile env n s)) ms))
            = Some v" by blast
qed (simp_all add: mapSourceFile_again, simp add: mapSourceFile_def)

theorem mapSourceFile_idempotent_witness:
  "findByName (sources exSession) (normPath exEnv ''gone.js'') = None
   \<and> \<not> existsSync exEnv (probePath exEnv exSession (normPath exEnv ''gone.js''))
   \<and> mapSourceFile exEnv ''gone.js'' exSession = (None, exSession)
   \<and> map_option sf_id (fst (mapSourceFile exEnv ''main.js'' exSession)) = Some 1
   \<and> nextSourceID (snd (mapSourceFile exEnv ''main.js'' exSession)) = 2
   \<and> fst (mapSourceFile exEnv ''main.js'' (snd (mapSourceFile exEnv ''main.js'' exSession)))
       = fst (mapSourceFile exEnv ''main.js'' exSession)
   \<and> snd (mapSourceFile exEnv ''main.js'' (snd (mapSourceFile exEnv ''main.js'' exSession)))
       = snd (mapSourceFile exEnv ''main.js'' exSession)
   \<and> findByName (sources exSession) (normPath exEnv ''main.js'') = None
   \<and> (\<forall>i. normPath exEnv ''main.js'' \<noteq> showNat i)
   \<and> fst (mapSourceFile exEnv ''main.js''
          (foldl (\<lambda>s m. snd (mapSourceFile exEnv m s))
             (snd (mapSourceFile exEnv ''main.js'' exSession)) [''gone.js'', ''1'']))
       = fst (mapSourceFile exEnv ''main.js'' exSession)"
proof -
  have a: "findByName (sources exSession) (normPath exEnv ''gone.js'') = None"
    by (simp add: exSession_def)
  have b: "\<not> existsSync exEnv (probePath exEnv exSession (normPath exEnv ''gone.js''))"
    by (simp add: exSession_def exEnv_def probePath_def normPath_def)
  have c: "map_option sf_id (fst (mapSourceFile exEnv ''main.js'' exSession)) = Some 1"
    by (simp add: mapSourceFile_def exSession_def exEnv_def probePath_def normPath_def
                  checkForSourceMap_def Let_def)
  have d: "nextSourceID (snd (mapSourceFile exEnv ''main.js'' exSession)) = 2"
    by (simp add: mapSourceFile_def exSession_def exEnv_def probePath_def normPath_def
                  checkForSourceMap_def Let_def)
  have e: "findByName (sources exSession) (normPath exEnv ''main.js'') = None"
    by (simp add: exSession_def)
  have f: "\<forall>i. normPath exEnv ''main.js'' \<noteq> showNat i"
  proof (intro allI notI)
    fix i
    assume "normPath exEnv ''main.js'' = showNat i"
    then have "''main.js'' = showNat i" by (simp add: normPath_def exEnv_def)
    with showNat_digits [of i] show False by (auto dest!: sym [of "''main.js''"])
  qed
  from c obtain v where v: "fst (mapSourceFile exEnv ''main.js'' exSession) = Some v"
    by (cases "fst (mapSourceFile exEnv ''main.js'' exSession)") auto
  note t = mapSourceFile_idempotent [of exEnv "''gone.js''" exSession]
  note u = mapSourceFile_idempotent [of exEnv "''main.js''" exSession v "[''gone.js'', ''1'']"]
  from t a b have g: "mapSourceFile exEnv ''gone.js'' exSession = (None, exSession)"
    by blast
  from u have h: "fst (mapSourceFile exEnv ''main.js'' (snd (mapSourceFile exEnv ''main.js'' exSession)))
       = fst (mapSourceFile exEnv ''main.js'' exSession)"
    by (rule conjunct1)
  from u have i: "snd (mapSourceFile exEnv ''main.js'' (snd (mapSourceFile exEnv ''main.js'' exSession)))
       = snd (mapSourceFile exEnv ''main.js'' exSession)"
    by (rule conjunct2 [THEN conjunct1])
  from u [THEN conjunct2, THEN conjunct2, THEN conjunct2, THEN mp, OF conjI [OF e conjI [OF v f]]] v
  have j: "fst (mapSourceFile exEnv ''main.js''
          (foldl (\<lambda>s m. snd (mapSourceFile exEnv m s))
             (snd (mapSourceFile exEnv ''main.js'' exSession)) [''gone.js'', ''1'']))
       = fst (mapSourceFile exEnv ''main.js'' exSession)" by simp
  show ?thesis
    by (intro conjI) (fact a b c d e f g h i j)+
qed

text \<open>
  Ids and names are keys of one object. When the files \<^verbatim>\<open>2\<close> and \<^verbatim>\<open>1\<close> both exist, the
  call for \<^verbatim>\<open>1\<close> stores the second file under the keys \<^verbatim>\<open>2\<close> (its id) and \<^verbatim>\<open>1\<close> (its
  name), which are the two keys of the first file; the next call for \<^verbatim>\<open>2\<close> finds no value
  of that name and registers a third file.
\<close>

lemma mapSourceFile_numeral_name_displaced:
  "map_option sf_id (fst (mapSourceFile (exEnv\<lparr>existsSync := \<lambda>p. True\<rparr>) ''2'' exSession)) = Some 1
   \<and> map_option sf_id
        (fst (mapSourceFile (exEnv\<lparr>existsSync := \<lambda>p. True\<rparr>) ''2''
           (snd (mapSourceFile (exEnv\<lparr>existsSync := \<lambda>p. True\<rparr>) ''1''
              (snd (mapSourceFile (exEnv\<lparr>existsSync := \<lambda>p. True\<rparr>) ''2'' exSession))))))
       = Some 3"
  by (simp add: mapSourceFile_def exSession_def exEnv_def probePath_def normPath_def
                checkForSourceMap_def Let_def showNat.simps)

section \<open>Requests the session refuses\<close>

text \<open>
  C9. A continue, next, stepIn or stepOut request that arrives while the session is not
  paused, and a setBreakpoints request whose source file \<open>unmapSourceFile\<close> does not
  resolve, is answered with an error response that carries a message. Nothing is written
  to the runtime and no field of the session changes: the session afterwards is the session
  before with the error response appended to what the front end was sent.
\<close>

theorem refused_requests_leave_session:
  "(\<not> paused (dbgState s) \<longrightarrow>
      continueRequest rt s
        = s\<lparr>out := out s @ [SendErrorResponse 100 ''Request failed: Not paused.'']\<rparr>
    \<and> nextRequest s
        = s\<lparr>out := out s @ [SendErrorResponse 100 ''Request failed: Not paused.'']\<rparr>
    \<and> stepInRequest s
        = s\<lparr>out := out s @ [SendErrorResponse 100 ''Request failed: Not paused.'']\<rparr>
    \<and> stepOutRequest s
        = s\<lparr>out := out s @ [SendErrorResponse 100 ''Request failed: Not paused.'']\<rparr>)
   \<and> (fst (unmapSourceFile env (path_normalize env path) s) = Inr None \<longrightarrow>
      setBreakPointsRequest env rt path lines s
        = s\<lparr>out := out s @ [SendErrorResponse 0 ''SetBreakPoint failed'']\<rparr>)"
proof (intro conjI impI)
  assume np: "\<not> paused (dbgState s)"
  then show "continueRequest rt s
        = s\<lparr>out := out s @ [SendErrorResponse 100 ''Request failed: Not paused.'']\<rparr>"
    by (simp add: continueRequest_def requestFailedResponse_def emit_def RequestFailed_def)
  from np show "nextRequest s
        = s\<lparr>out := out s @ [SendErrorResponse 100 ''Request failed: Not paused.'']\<rparr>"
    by (simp add: nextRequest_def stepRequest_def requestFailedResponse_def emit_def
                  RequestFailed_def)
  from np show "stepInRequest s
        = s\<lparr>out := out s @ [SendErrorResponse 100 ''Request failed: Not paused.'']\<rparr>"
    by (simp add: stepInRequest_def stepRequest_def requestFailedResponse_def emit_def
                  RequestFailed_def)
  from np show "stepOutRequest s
        = s\<lparr>out := out s @ [SendErrorResponse 100 ''Request failed: Not paused.'']\<rparr>"
    by (simp add: stepOutRequest_def stepRequest_def requestFailedResponse_def emit_def
                  RequestFailed_def)
next
  assume un: "fst (unmapSourceFile env (path_normalize env path) s) = Inr None"
  from unmapSourceFile_None [OF un]
  have "unmapSourceFile env (path_normalize env path) s = (Inr None, s)"
    using un by (simp add: prod_eq_iff)
  then show "setBreakPointsRequest env rt path lines s
        = s\<lparr>out := out s @ [SendErrorResponse 0 ''SetBreakPoint failed'']\<rparr>"
    by (simp add: setBreakPointsRequest_def emit_def)
qed

theorem refused_requests_leave_session_witness:
  "\<not> paused (dbgState exSession)
   \<and> continueRequest exRuntime exSession
       = exSession\<lparr>out := [SendErrorResponse 100 ''Request failed: Not paused.'']\<rparr>
   \<and> stepInRequest exSession
       = exSession\<lparr>out := [SendErrorResponse 100 ''Request failed: Not paused.'']\<rparr>
   \<and> fst (unmapSourceFile exEnv (path_normalize exEnv ''/proj/gone.ts'')
            (exSession\<lparr>args_sourceMaps := False, sourceMapsSet := False\<rparr>)) = Inr None
   \<and> setBreakPointsRequest exEnv exRuntime ''/proj/gone.ts'' [3]
        (exSession\<lparr>args_sourceMaps := False, sourceMapsSet := False\<rparr>)
       = exSession\<lparr>args_sourceMaps := False, sourceMapsSet := False,
                    out := [SendErrorResponse 0 ''SetBreakPoint failed'']\<rparr>"
proof -
  have a: "\<not> paused (dbgState exSession)"
    by (simp add: exSession_def reset_def)
  have b: "fst (unmapSourceFile exEnv (path_normalize exEnv ''/proj/gone.ts'')
             (exSession\<lparr>args_sourceMaps := False, sourceMapsSet := False\<rparr>)) = Inr None"
    by (simp add: unmapSourceFile_def mapSourceFile_def exSession_def exEnv_def probePath_def
                  normPath_def Let_def)
  have c: "out exSession = []" by (simp add: exSession_def)
  from a b c
       refused_requests_leave_session
         [where s = exSession and rt = exRuntime and env = exEnv
            and path = "''/proj/gone.ts''" and lines = "[3]"]
       refused_requests_leave_session
         [where s = "exSession\<lparr>args_sourceMaps := False, sourceMapsSet := False\<rparr>"
            and rt = exRuntime and env = exEnv
            and path = "''/proj/gone.ts''" and lines = "[3]"]
  show ?thesis by simp
qed

section \<open>The stop reason\<close>

text \<open>
  What the listener does with a paused status once the initial status is stored, when the
  breakpoint lookup does not throw: one stopped event, with the reason \<open>breakpoint\<close> when
  \<open>find\<close> returns an entry for the file name and the line of the translated position and
  with the pending reason otherwise; the pending reason is \<open>debugger\<close> afterwards.
\<close>

lemma on_nfy_status_paused:
  assumes "initialStatus s \<noteq> None" and "st_state status = Paused"
    and "lookForBreakpoint env status s = (None, s1)"
  shows "out (on_nfy_status env status s)
           = out s1 @ [SendEvent (StoppedEvent (expectingBreak s1) THREAD_ID)]"
    and "expectingBreak (on_nfy_status env status s) = ''debugger''"
    and "dbgState (on_nfy_status env status s) = reset\<lparr>paused := True\<rparr>"
  using assms by (auto simp: on_nfy_status_def emit_def)

lemma lookForBreakpoint_reason:
  assumes "lookForBreakpoint env status s = (None, s1)"
  shows "expectingBreak s1 = ''breakpoint'' \<or> expectingBreak s1 = expectingBreak s"
  using assms mapSourceFile_None [of env "st_filename status" s]
  by (auto simp: lookForBreakpoint_def mapSourceFile_def Let_def
           split: prod.splits option.splits sum.splits if_splits)

text \<open>
  C1. A paused status after initialisation reports the reason \<open>breakpoint\<close> when the stop
  location, translated to the original source, matches an entry of the breakpoint map. The
  code does not do this for the entries that setBreakpoints stores: an entry holds the path
  of the source file, and the listener asks \<open>find\<close> with the file name of the translated
  position, not with its path. In the example session a breakpoint is set on line 20 of
  \<^verbatim>\<open>/proj/main.ts\<close> and stored in the map; the runtime then stops on line 25 of
  \<^verbatim>\<open>main.js\<close>, which translates to line 20 of \<^verbatim>\<open>/proj/main.ts\<close>; the stopped event
  carries the reason \<open>debugger\<close>.
\<close>

theorem stop_on_stored_breakpoint_reports_debugger:
  "breakpoints (setBreakPointsRequest exEnv exRuntime ''/proj/main.ts'' [20] exSession)
     = [Some \<lparr>filePath = ''/proj/main.ts'', dukIdx = Some 0, line = 20\<rparr>]
   \<and> out (setBreakPointsRequest exEnv exRuntime ''/proj/main.ts'' [20] exSession)
     = [SendResponse (BreakpointsBody [(True, 20)])]
   \<and> map_option (\<lambda>sf. generated2Source exEnv sf 25)
       (fst (mapSourceFile exEnv ''main.js''
              (setBreakPointsRequest exEnv exRuntime ''/proj/main.ts'' [20] exSession)))
     = Some \<lparr>pos_path = ''/proj/main.ts'', pos_fileName = ''main.ts'', pos_line = 20\<rparr>
   \<and> out (on_nfy_status exEnv (exStatus Paused 25)
            (setBreakPointsRequest exEnv exRuntime ''/proj/main.ts'' [20] exSession))
     = [SendResponse (BreakpointsBody [(True, 20)]),
        SendEvent (StoppedEvent ''debugger'' 1)]"
  by (simp add: setBreakPointsRequest_def exEnv_def exRuntime_def exSession_def
        unmapSourceFile_def mapSourceFile_def probePath_def Let_def normPath_def lastIndexOf_def
        toLowerCase_def checkForSourceMap_def exMap_def getBreakpointsForFile_def addBPs_of_def
        remBPs_of_def persistBPs_of_def DukBreakPoint_new_def source2Generated_def send_def
        emit_def updateAndRespond_def removeBreakpoints_def addBreakpoints_def
        on_nfy_status_def lookForBreakpoint_def exStatus_def generated2Source_def find_bp_def
        reset_def Handles_new_def THREAD_ID_def showNat.simps)

section \<open>The example session, evaluated\<close>

lemma replicate_4: "replicate 4 c = [c, c, c, c]"
  by (simp add: numeral_eq_Suc)

lemma exPtr_text [simp]:
  "TValPointer_toString \<lparr>ptr_size = 4, lopart = 4096, hipart = 0\<rparr> = ''0x00001000''"
  "TValPointer_toString \<lparr>ptr_size = 4, lopart = 8192, hipart = 0\<rparr> = ''0x00002000''"
  "TValPointer_toString exPtr = ''0x00001000''"
  by (simp_all add: TValPointer_toString_def toPaddedHex_def toString16.simps exPtr_def
                    replicate_4)

lemmas model_defs =
  setBreakPointsRequest_def unmapSourceFile_def mapSourceFile_def probePath_def Let_def
  normPath_def lastIndexOf_def toLowerCase_def checkForSourceMap_def getBreakpointsForFile_def
  addBPs_of_def remBPs_of_def persistBPs_of_def DukBreakPoint_new_def source2Generated_def
  send_def emit_def updateAndRespond_def removeBreakpoints_def addBreakpoints_def
  on_nfy_status_def lookForBreakpoint_def generated2Source_def find_bp_def reset_def
  Handles_new_def THREAD_ID_def showNat.simps scopesRequest_def scopeRequestForLocals_def
  stackTraceRequest_def Handles_get_def Handles_create_def Handles_modify_def updDbg_def
  getPropSet_def modPropSet_def createPropSet_def depthOf_def pushVariable_def varsOf_def
  setValue_def requestEval_def isGlobalObjectByName_def getObjectConstructorByName_def
  askToString_def resolveOne_def displayNameFor_def applyToString_def applyCtor_def
  allReplies_def allToStr_def resolvePropertySetVariables_def expandScopeProperties_def
  expandPropertySubset_def frameOut_def respondVars_def variablesRequest_def returnVars_def
  Array_sort_def compareVars_def indexOf_def substring_def List.map_filter_def String_of_def
  requestFailedResponse_def RequestFailed_def

lemmas example_defs =
  exEnv_def exRuntime_def exSession_def exMap_def exStatus_def exStack_def exPaused_def
  exConsts_def
  exPtr_def exEval_def exNumber_def

lemma exPaused_dbgState:
  "dbgState exPaused =
     \<lparr>paused = True, ptrHandles = [(''0x00001000'', 1001)],
      varHandles =
        \<lparr>nextHandle = 1002,
         handleMap =
           [(1000, \<lparr>ps_type = Scope, ps_handle = 1000, ps_scope = Some 1000,
                    displayName = None, heapPtr = None,
                    variables =
                      Some [\<lparr>v_name = ''a'', v_value = ''Foo'', variablesReference = 1001\<rparr>,
                            \<lparr>v_name = ''b'', v_value = ''Foo'', variablesReference = 1001\<rparr>,
                            \<lparr>v_name = ''n'', v_value = ''42'', variablesReference = 0\<rparr>]\<rparr>),
            (1001, \<lparr>ps_type = Object, ps_handle = 1001, ps_scope = Some 1000,
                    displayName = Some ''[object Object]'', heapPtr = Some exPtr,
                    variables = None\<rparr>)]\<rparr>,
      stackFrames =
        \<lparr>nextHandle = 1001,
         handleMap =
           [(1000, \<lparr>fr_handle = 1000,
                    fr_source = fst (mapSourceFile exEnv ''main.js'' exSession),
                    fr_fileName = ''main.ts'', fr_filePath = ''/proj/main.ts'',
                    funcName = ''f'', lineNumber = 20, fr_pc = 3, depth = - 1,
                    klass = Some [], fr_scopes = Some [1000]\<rparr>)]\<rparr>,
      scopes =
        \<lparr>nextHandle = 1001,
         handleMap = [(1000, \<lparr>sc_handle = 1000, sc_name = ''Local'',
                              sc_stackFrame = Some 1000, properties = Some 1000\<rparr>)]\<rparr>\<rparr>"
  by (simp add: model_defs example_defs)

lemma exPaused_out:
  "out exPaused =
     [SendEvent (StoppedEvent ''debugger'' 1),
      SendResponse (StackFramesBody
                      [(1000, ''f() : 3'', Some (''main.ts'', ''/proj/main.ts'', 20), 20, 3)]),
      SendResponse (ScopesBody [(''Local'', 1000, False)])]"
  by (simp add: model_defs example_defs)

section \<open>The order of a variable listing\<close>

lemma compareVars_le:
  "compareVars N a b \<le> 0 \<longleftrightarrow> namesInOrder N (v_name a) (v_name b)"
  by (auto simp: compareVars_def namesInOrder_def split: option.splits)

lemma namesInOrder_total: "namesInOrder N a b \<or> namesInOrder N b a"
  by (auto simp: namesInOrder_def split: option.splits)

lemma namesInOrder_trans:
  "namesInOrder N a b \<Longrightarrow> namesInOrder N b c \<Longrightarrow> namesInOrder N a c"
  by (auto simp: namesInOrder_def split: option.splits)

lemma set_insertBy: "set (insertBy cmp x ys) = insert x (set ys)"
  by (induction ys) auto

lemma mset_insertBy: "mset (insertBy cmp x ys) = add_mset x (mset ys)"
  by (induction ys) auto

lemma mset_Array_sort: "mset (Array_sort cmp xs) = mset xs"
  by (induction xs) (auto simp: Array_sort_def mset_insertBy)

lemma mset_returnVars: "mset (returnVars N t vars) = mset vars"
  by (simp add: returnVars_def mset_Array_sort)

lemma sorted_insertBy:
  assumes "sorted_wrt (\<lambda>a b. namesInOrder N (v_name a) (v_name b)) ys"
  shows "sorted_wrt (\<lambda>a b. namesInOrder N (v_name a) (v_name b))
           (insertBy (compareVars N) x ys)"
  using assms
proof (induction ys)
  case Nil
  then show ?case by simp
next
  case (Cons y ys)
  show ?case
  proof (cases "compareVars N x y \<le> 0")
    case True
    then have xy: "namesInOrder N (v_name x) (v_name y)" by (simp add: compareVars_le)
    with Cons.prems have "\<forall>z \<in> set ys. namesInOrder N (v_name x) (v_name z)"
      by (auto intro: namesInOrder_trans)
    with True xy Cons.prems show ?thesis by simp
  next
    case False
    then have "namesInOrder N (v_name y) (v_name x)"
      using namesInOrder_total [of N "v_name x" "v_name y"] by (simp add: compareVars_le)
    with False Cons show ?thesis by (auto simp: set_insertBy)
  qed
qed

lemma sorted_Array_sort:
  "sorted_wrt (\<lambda>a b. namesInOrder N (v_name a) (v_name b)) (Array_sort (compareVars N) xs)"
  by (induction xs) (auto simp: Array_sort_def intro: sorted_insertBy [unfolded Array_sort_def])

lemma returnVars_sorted:
  "t \<noteq> Artificials \<Longrightarrow> sorted_wrt (namesInOrder N) (map v_name (returnVars N t vars))"
  by (simp add: returnVars_def sorted_wrt_map sorted_Array_sort)

lemma last_out_emit [simp]: "last (out (emit x s)) = x"
  by (simp add: emit_def)

lemma last_out_respondVars [simp]:
  "last (out (respondVars N t owner vars s))
     = SendResponse (VariablesBody (returnVars N t vars))"
  by (simp add: respondVars_def)

lemma expandPropertySubset_Artificials:
  "getPropSet s h = Some p \<Longrightarrow> ps_type p = Artificials \<Longrightarrow>
     expandPropertySubset dc rt h s = (Inr (varsOf s h), s)"
  by (simp add: expandPropertySubset_def)

text \<open>
  C5. When a variables request for a property set answers with a list of variables, then
  for a set that is not of the kind Artificials the names in the list are in order: all
  names that are no numbers come first, lexicographically, and the names that are numbers
  follow in ascending numeric order. For a set of the kind Artificials the list is the
  array of the set as it was stored, in the order of the wire.
\<close>

theorem variablesRequest_sorted:
  assumes "getPropSet s ref = Some p"
    and "last (out (variablesRequest N dc rt ref s)) = SendResponse (VariablesBody vs)"
  shows "(ps_type p \<noteq> Artificials \<longrightarrow> sorted_wrt (namesInOrder N) (map v_name vs))
       \<and> (ps_type p = Artificials \<longrightarrow> vs = varsOf s ref)"
proof (cases "ps_type p = Artificials")
  case True
  with assms expandPropertySubset_Artificials [OF assms(1) True, of dc rt]
  show ?thesis
    by (auto simp: variablesRequest_def returnVars_def split: if_splits option.splits)
next
  case False
  with assms show ?thesis
    by (auto simp: variablesRequest_def returnVars_sorted
             split: if_splits option.splits prod.splits sum.splits)
qed

text \<open>
  In the example the object behind \<open>a\<close> and \<open>b\<close> has the own properties \<open>b\<close>, \<open>2\<close>, \<open>a\<close>,
  \<open>10\<close> in this order on the wire and the artificial properties \<open>prototype\<close>, \<open>class\<close>.
\<close>

lemma exPaused_object_listing:
  "last (out (variablesRequest exNumber exConsts exRuntime 1001 exPaused))
     = SendResponse (VariablesBody
         [\<lparr>v_name = ''__artificial'', v_value = ''{...}'', variablesReference = 1002\<rparr>,
          \<lparr>v_name = ''a'', v_value = ''true'', variablesReference = 0\<rparr>,
          \<lparr>v_name = ''b'', v_value = [CHR 0x22, CHR ''s'', CHR 0x22], variablesReference = 0\<rparr>,
          \<lparr>v_name = ''2'', v_value = ''7'', variablesReference = 0\<rparr>,
          \<lparr>v_name = ''10'', v_value = ''1'', variablesReference = 0\<rparr>])"
  by (simp add: model_defs exPaused_dbgState exRuntime_def exConsts_def exPtr_def exNumber_def)

lemma exPaused_artificials_listing:
  "getPropSet (variablesRequest exNumber exConsts exRuntime 1001 exPaused) 1002
     = Some \<lparr>ps_type = Artificials, ps_handle = 1002, ps_scope = Some 1000,
             displayName = None, heapPtr = None,
             variables =
               Some [\<lparr>v_name = ''prototype'', v_value = ''null'', variablesReference = 0\<rparr>,
                     \<lparr>v_name = ''class'', v_value = ''10'', variablesReference = 0\<rparr>]\<rparr>
   \<and> last (out (variablesRequest exNumber exConsts exRuntime 1002
                  (variablesRequest exNumber exConsts exRuntime 1001 exPaused)))
     = SendResponse (VariablesBody
         [\<lparr>v_name = ''prototype'', v_value = ''null'', variablesReference = 0\<rparr>,
          \<lparr>v_name = ''class'', v_value = ''10'', variablesReference = 0\<rparr>])"
  by (simp add: model_defs exPaused_dbgState exRuntime_def exConsts_def exPtr_def exNumber_def)

theorem variablesRequest_sorted_witness:
  "getPropSet exPaused 1001
     = Some \<lparr>ps_type = Object, ps_handle = 1001, ps_scope = Some 1000,
             displayName = Some ''[object Object]'', heapPtr = Some exPtr, variables = None\<rparr>
   \<and> last (out (variablesRequest exNumber exConsts exRuntime 1001 exPaused))
     = SendResponse (VariablesBody
         [\<lparr>v_name = ''__artificial'', v_value = ''{...}'', variablesReference = 1002\<rparr>,
          \<lparr>v_name = ''a'', v_value = ''true'', variablesReference = 0\<rparr>,
          \<lparr>v_name = ''b'', v_value = [CHR 0x22, CHR ''s'', CHR 0x22], variablesReference = 0\<rparr>,
          \<lparr>v_name = ''2'', v_value = ''7'', variablesReference = 0\<rparr>,
          \<lparr>v_name = ''10'', v_value = ''1'', variablesReference = 0\<rparr>])
   \<and> sorted_wrt (namesInOrder exNumber) [''__artificial'', ''a'', ''b'', ''2'', ''10'']
   \<and> varsOf (variablesRequest exNumber exConsts exRuntime 1001 exPaused) 1002
     = [\<lparr>v_name = ''prototype'', v_value = ''null'', variablesReference = 0\<rparr>,
        \<lparr>v_name = ''class'', v_value = ''10'', variablesReference = 0\<rparr>]"
proof -
  have a: "getPropSet exPaused 1001
     = Some \<lparr>ps_type = Object, ps_handle = 1001, ps_scope = Some 1000,
             displayName = Some ''[object Object]'', heapPtr = Some exPtr, variables = None\<rparr>"
    by (simp add: getPropSet_def Handles_get_def exPaused_dbgState)
  note b = exPaused_object_listing
  note c = exPaused_artificials_listing
  from variablesRequest_sorted [OF a b] variablesRequest_sorted [OF conjunct1 [OF c] conjunct2 [OF c]]
       a b
  show ?thesis by simp
qed

section \<open>The pointer cache\<close>

lemma map_of_modify:
  "map_of (map (\<lambda>(k', v). if k' = k then (k', f v) else (k', v)) xs) j
     = (if j = k then map_option f (map_of xs j) else map_of xs j)"
  by (induction xs) auto

lemma getPropSet_send [simp]: "getPropSet (send c s) h = getPropSet s h"
  by (simp add: getPropSet_def send_def)

lemma dbgState_send [simp]: "dbgState (send c s) = dbgState s"
  by (simp add: send_def)

lemma getPropSet_modPropSet:
  "getPropSet (modPropSet k f s) h = (if h = k then map_option f (getPropSet s h) else getPropSet s h)"
  by (simp add: getPropSet_def modPropSet_def updDbg_def Handles_get_def Handles_modify_def map_of_modify)

lemma getPropSet_createPropSet:
  "getPropSet (createPropSet p s) h =
     (case getPropSet s h of
        Some q \<Rightarrow> Some q
      | None \<Rightarrow> if h = nextHandle (varHandles (dbgState s)) then Some p else None)"
  by (simp add: getPropSet_def createPropSet_def updDbg_def Handles_get_def Handles_create_def
                map_add_def split: option.splits)

lemma ptrHandles_modPropSet [simp]:
  "ptrHandles (dbgState (modPropSet k f s)) = ptrHandles (dbgState s)"
  by (simp add: modPropSet_def updDbg_def)

lemma ptrHandles_createPropSet [simp]:
  "ptrHandles (dbgState (createPropSet p s)) = ptrHandles (dbgState s)"
  by (simp add: createPropSet_def updDbg_def)

lemma ptrHandles_pushVariable [simp]:
  "ptrHandles (dbgState (pushVariable h v s)) = ptrHandles (dbgState s)"
  by (simp add: pushVariable_def)

lemma getPropSet_updPtr [simp]:
  "getPropSet (updDbg (\<lambda>d. d\<lparr>ptrHandles := g (ptrHandles d)\<rparr>) s) h = getPropSet s h"
  by (simp add: getPropSet_def updDbg_def)

lemma ptrHandles_updPtr [simp]:
  "ptrHandles (dbgState (updDbg (\<lambda>d. d\<lparr>ptrHandles := g (ptrHandles d)\<rparr>) s)) = g (ptrHandles (dbgState s))"
  by (simp add: updDbg_def)

lemma stored_send [simp]: "stored (send c s) h = stored s h"
  by (simp add: stored_def)

lemma stored_modPropSet [simp]: "stored (modPropSet k f s) h = stored s h"
  by (simp add: stored_def getPropSet_modPropSet)

lemma stored_pushVariable [simp]: "stored (pushVariable k v s) h = stored s h"
  by (simp add: pushVariable_def)

lemma stored_updPtr [simp]: "stored (updDbg (\<lambda>d. d\<lparr>ptrHandles := g (ptrHandles d)\<rparr>) s) h = stored s h"
  by (simp add: stored_def)

lemma stored_createPropSet [simp]: "stored s h \<Longrightarrow> stored (createPropSet p s) h"
  by (auto simp: stored_def getPropSet_createPropSet)

lemma varsOf_send [simp]: "varsOf (send c s) h = varsOf s h"
  by (simp add: varsOf_def)

lemma varsOf_updPtr [simp]: "varsOf (updDbg (\<lambda>d. d\<lparr>ptrHandles := g (ptrHandles d)\<rparr>) s) h = varsOf s h"
  by (simp add: varsOf_def)

lemma varsOf_createPropSet [simp]: "stored s h \<Longrightarrow> varsOf (createPropSet p s) h = varsOf s h"
  by (auto simp: stored_def varsOf_def getPropSet_createPropSet)

lemma varsOf_displayName [simp]:
  "varsOf (modPropSet k (\<lambda>p. p\<lparr>displayName := x\<rparr>) s) h = varsOf s h"
  by (auto simp: varsOf_def getPropSet_modPropSet split: option.splits)

lemma varsOf_pushVariable [simp]:
  "stored s h \<Longrightarrow> varsOf (pushVariable h v s) h = varsOf s h @ [v]"
  by (auto simp: stored_def varsOf_def pushVariable_def getPropSet_modPropSet split: option.splits)


lemma nextHandle_send [simp]: "nextHandle (varHandles (dbgState (send c s))) = nextHandle (varHandles (dbgState s))"
  by simp

lemma nextHandle_modPropSet [simp]:
  "nextHandle (varHandles (dbgState (modPropSet k f s))) = nextHandle (varHandles (dbgState s))"
  by (simp add: modPropSet_def updDbg_def Handles_modify_def)

lemma nextHandle_pushVariable [simp]:
  "nextHandle (varHandles (dbgState (pushVariable h v s))) = nextHandle (varHandles (dbgState s))"
  by (simp add: pushVariable_def)

lemma sent_modPropSet [simp]: "sent (modPropSet k f s) = sent s"
  by (simp add: modPropSet_def updDbg_def)

lemma sent_pushVariable [simp]: "sent (pushVariable h v s) = sent s"
  by (simp add: pushVariable_def)






lemma nextHandle_createPropSet [simp]:
  "nextHandle (varHandles (dbgState (createPropSet p s))) = Suc (nextHandle (varHandles (dbgState s)))"
  by (simp add: createPropSet_def updDbg_def Handles_create_def)

lemma nextHandle_updPtr [simp]:
  "nextHandle (varHandles (dbgState (updDbg (\<lambda>d. d\<lparr>ptrHandles := g (ptrHandles d)\<rparr>) s)))
     = nextHandle (varHandles (dbgState s))"
  by (simp add: updDbg_def)

lemma displayName_pushVariable [simp]:
  "map_option displayName (getPropSet (pushVariable h v s) oh)
     = map_option displayName (getPropSet s oh)"
  by (cases "getPropSet s oh") (auto simp: pushVariable_def getPropSet_modPropSet)

lemma getPropSet_createPropSet_old [simp]:
  "oh < nextHandle (varHandles (dbgState s)) \<Longrightarrow> getPropSet (createPropSet p s) oh = getPropSet s oh"
  by (auto simp: getPropSet_createPropSet split: option.splits)




text \<open>
  In the paused example the pointer of \<open>a\<close> and \<open>b\<close> is cached under the handle 1001. A
  further call with the values \<open>c\<close> and \<open>d\<close>, which share a new pointer, and \<open>e\<close>, which
  has the cached one, gives \<open>c\<close> and \<open>d\<close> the new handle 1002 and \<open>e\<close> the handle 1001 with
  the display name stored there.
\<close>

lemma exPaused_resolve:
  "map (\<lambda>v. (v_name v, v_value v, variablesReference v))
     (varsOf (snd (foldl (resolveOne exConsts exRuntime 1000 (Some 1000) (- 1)) ([], exPaused)
                     [(''c'', VObject 10 \<lparr>ptr_size = 4, lopart = 8192, hipart = 0\<rparr>),
                      (''d'', VObject 10 \<lparr>ptr_size = 4, lopart = 8192, hipart = 0\<rparr>),
                      (''e'', VObject 10 exPtr)])) 1000)
     = [(''a'', ''Foo'', 1001), (''b'', ''Foo'', 1001), (''n'', ''42'', 0),
        (''c'', [], 1002), (''d'', [], 1002), (''e'', ''[object Object]'', 1001)]"
  by (simp add: model_defs exPaused_dbgState exRuntime_def exConsts_def exPtr_def exEval_def)


section \<open>Display names\<close>

lemma sent_createPropSet [simp]: "sent (createPropSet p s) = sent s"
  by (simp add: createPropSet_def updDbg_def)

lemma sent_updPtr [simp]: "sent (updDbg f s) = sent s"
  by (simp add: updDbg_def)

lemma sent_send [simp]: "sent (send c s) = sent s @ [c]"
  by (simp add: send_def)





lemma displayNameFor_generic:
  assumes "success r" and "result r = VString ''[object Object]''"
  shows "displayNameFor r = ''[object Object]''"
  using assms by (simp add: displayNameFor_def String_of_def)


















lemma exStack_dbgState:
  "dbgState exStack =
     \<lparr>paused = True, ptrHandles = [],
      varHandles = \<lparr>nextHandle = 1000, handleMap = []\<rparr>,
      stackFrames =
        \<lparr>nextHandle = 1001,
         handleMap =
           [(1000, \<lparr>fr_handle = 1000,
                    fr_source = fst (mapSourceFile exEnv ''main.js'' exSession),
                    fr_fileName = ''main.ts'', fr_filePath = ''/proj/main.ts'',
                    funcName = ''f'', lineNumber = 20, fr_pc = 3, depth = - 1,
                    klass = Some [], fr_scopes = None\<rparr>)]\<rparr>,
      scopes = \<lparr>nextHandle = 1000, handleMap = []\<rparr>\<rparr>"
  by (simp add: model_defs example_defs)

lemma exStack_out:
  "out exStack =
     [SendEvent (StoppedEvent ''debugger'' 1),
      SendResponse (StackFramesBody
                      [(1000, ''f() : 3'', Some (''main.ts'', ''/proj/main.ts'', 20), 20, 3)])]"
  by (simp add: model_defs example_defs)

lemma exPaused_fields:
  "initialStatus exPaused = Some (exStatus Running 1)" "breakpoints exPaused = []"
  by (simp_all add: model_defs example_defs)

section \<open>Failures while a pause is materialised\<close>

text \<open>
  What holds of the claim below: the constructor name of a frame is always resolved, to
  the empty string when the object is the global one or when an evaluation is rejected or
  fails.
\<close>

lemma getObjectConstructorByName_resolves:
  "\<exists>c. fst (getObjectConstructorByName rt prefix stackDepth s) = Inr c"
  by (auto simp: getObjectConstructorByName_def split: prod.splits sum.splits bool.splits
                 option.splits)

lemma getObjectConstructorByName_global_or_failed:
  assumes "evalReply rt (sent s) (''String('' @ prefix @ '')'') (Some stackDepth) = Some r"
    and "\<not> success r \<or> result r = VString ''[object global]''"
  shows "fst (getObjectConstructorByName rt prefix stackDepth s) = Inr []"
  using assms
  by (auto simp: getObjectConstructorByName_def isGlobalObjectByName_def requestEval_def)

text \<open>
  C8. A failure of an evaluation or inspection while scopes or variables are materialised
  is soft: the request still completes with a successful, possibly empty response. The
  code does not do this on two paths. In \<open>scopeRequestForLocals\<close> the \<open>catch\<close> at the end
  of the chain stores the empty list in the response and never sends it, so a scopes
  request whose locals request is rejected, or whose evaluation of \<open>String(this)\<close> fails,
  is never answered. In \<open>variablesRequest\<close> the expansion of an object has no \<open>catch\<close>,
  so a rejected heap inspection leaves the request unanswered as well. The example
  session has the frame 1000 and the object set 1001.
\<close>

theorem scopes_request_unanswered:
  "paused (dbgState exStack)
   \<and> Handles_get (stackFrames (dbgState exStack)) 1000 \<noteq> None
   \<and> out (scopesRequest exConsts (exRuntime\<lparr>localsReply := (\<lambda>h d. None)\<rparr>) 1000 exStack)
       = out exStack
   \<and> out (scopesRequest exConsts
             (exRuntime\<lparr>evalReply := (\<lambda>h e d. Some \<lparr>success = False, result = VUndefined\<rparr>)\<rparr>)
             1000 exStack)
       = out exStack
   \<and> out (variablesRequest exNumber exConsts (exRuntime\<lparr>heapInfoReply := (\<lambda>h p. None)\<rparr>)
             1001 exPaused)
       = out exPaused @ [Thrown (Rejected ''requestInspectHeapObj'')]"
  by (simp add: model_defs exStack_dbgState exPaused_dbgState exRuntime_def exPtr_def)

section \<open>setBreakpoints\<close>

text \<open>
  The three lists of the diff, the order of the commands, and the answer when the map
  update does not throw.
\<close>

lemma firstOrNull_Inr_None:
  "firstOrNull xs (\<lambda>b. Inr (P b)) = Inr None \<longleftrightarrow> (\<forall>x \<in> set xs. \<not> P x)"
  by (induction xs) (auto split: bool.splits)

lemma remBPs_of_eq:
  "remBPs_of inLines fileBPs = filter (\<lambda>a. line a \<notin> set inLines) fileBPs"
  by (simp add: remBPs_of_def firstOrNull_Inr_None) (metis)

lemma addBPs_of_eq:
  "addBPs_of fp inLines fileBPs
     = map (DukBreakPoint_new fp) (filter (\<lambda>a. a \<notin> line ` set fileBPs) inLines)"
  by (auto simp: addBPs_of_def firstOrNull_Inr_None intro!: arg_cong [where f = "map _"] filter_cong)

lemma persistBPs_of_eq:
  "persistBPs_of (remBPs_of inLines fileBPs) fileBPs = filter (\<lambda>a. line a \<in> set inLines) fileBPs"
  by (auto simp: persistBPs_of_def remBPs_of_eq firstOrNull_Inr_None intro!: filter_cong)

lemma sent_emit [simp]: "sent (emit x s) = sent s"
  by (simp add: emit_def)

lemma sent_mapSourceFile [simp]: "sent (snd (mapSourceFile env n s)) = sent s"
  by (simp add: mapSourceFile_def Let_def split: option.splits)

lemma sent_mapFirst [simp]: "sent (snd (mapFirst env files s)) = sent s"
proof (induction files arbitrary: s)
  case Nil
  then show ?case by simp
next
  case (Cons f files)
  show ?case
  proof (cases "mapSourceFile env f s")
    case (Pair r s')
    then have "sent s' = sent s" using sent_mapSourceFile [of env f s] by simp
    with Cons Pair show ?thesis by (cases r) (simp_all split: if_splits)
  qed
qed

lemma sent_unmapSourceFile [simp]: "sent (snd (unmapSourceFile env p s)) = sent s"
  by (simp add: unmapSourceFile_def Let_def split_beta split: option.splits)

lemma doRemoveBreakpoints_sent:
  "\<exists>ds. sent (snd (doRemoveBreakpoints rt remBPs s)) = sent s @ ds
        \<and> (\<forall>c \<in> set ds. \<exists>i. c = CmdRemoveBreakpoint i)"
proof (induction remBPs arbitrary: s)
  case Nil
  then show ?case by simp
next
  case (Cons b remBPs)
  from Cons [of "send (CmdRemoveBreakpoint (dukIdx b)) s"]
  show ?case by (auto simp: send_def)
qed

lemma doAddBreakpoints_sent:
  "\<exists>as. sent (snd (snd (doAddBreakpoints rt src fp addBPs successBPs s))) = sent s @ as
        \<and> (\<forall>c \<in> set as. \<exists>n l. c = CmdSetBreakpoint n l)"
proof (induction addBPs arbitrary: s successBPs)
  case Nil
  then show ?case by simp
next
  case (Cons bp addBPs)
  let ?pos = "source2Generated src fp (line bp)"
  let ?c = "CmdSetBreakpoint (pos_fileName ?pos) (pos_line ?pos)"
  from Cons [of successBPs s] Cons [of "successBPs @ [bp]" "send ?c s"]
  show ?case
    by (auto simp: send_def Let_def)
qed

lemma sent_updateAndRespond [simp]: "sent (updateAndRespond r p a s) = sent s"
  by (simp add: updateAndRespond_def split: prod.splits option.splits)

lemma setBreakPointsRequest_deletes_before_adds:
  "\<exists>ds as. sent (setBreakPointsRequest env rt path lines s) = sent s @ ds @ as
        \<and> (\<forall>c \<in> set ds. \<exists>i. c = CmdRemoveBreakpoint i)
        \<and> (\<forall>c \<in> set as. \<exists>n l. c = CmdSetBreakpoint n l)"
proof (cases "unmapSourceFile env (path_normalize env path) s")
  case (Pair r s1)
  then have s1: "sent s1 = sent s"
    using sent_unmapSourceFile [of env "path_normalize env path" s] by simp
  have triv: "\<exists>ds as. sent s = sent s @ ds @ as
        \<and> (\<forall>c \<in> set ds. \<exists>i. c = CmdRemoveBreakpoint i)
        \<and> (\<forall>c \<in> set as. \<exists>n l. c = CmdSetBreakpoint n l)"
    by (intro exI [of _ "[]"]) simp
  show ?thesis
  proof (cases r)
    case (Inl e)
    with Pair s1 triv show ?thesis by (simp add: setBreakPointsRequest_def)
  next
    case (Inr o1)
    show ?thesis
    proof (cases o1)
      case None
      with Pair Inr s1 triv show ?thesis by (simp add: setBreakPointsRequest_def)
    next
      case (Some src)
      show ?thesis
      proof (cases "getBreakpointsForFile (path_normalize env) (breakpoints s1) (path_normalize env path)")
        case e: (Inl e)
        with Pair Inr Some s1 triv show ?thesis by (simp add: setBreakPointsRequest_def)
      next
        case f: (Inr fileBPs)
        define inLines where "inLines = map (convertClientLineToDebugger env) lines"
        define remBPs where "remBPs = remBPs_of inLines fileBPs"
        define addBPs where "addBPs = addBPs_of (path_normalize env path) inLines fileBPs"
        obtain e2 s2 where r2: "doRemoveBreakpoints rt remBPs s1 = (e2, s2)"
          by (cases "doRemoveBreakpoints rt remBPs s1")
        from doRemoveBreakpoints_sent [of rt remBPs s1] r2 s1 obtain ds where
          ds: "sent s2 = sent s @ ds" "\<forall>c \<in> set ds. \<exists>i. c = CmdRemoveBreakpoint i" by auto
        show ?thesis
        proof (cases e2)
          case e: (Some e)
          with Pair Inr Some f r2
          have "sent (setBreakPointsRequest env rt path lines s) = sent s2"
            by (simp add: setBreakPointsRequest_def Let_def inLines_def remBPs_def)
          with ds show ?thesis
            by - (rule exI [where x = ds], rule exI [where x = "[]"], simp)
        next
          case None
          obtain e3 succ s3 where
            r3: "doAddBreakpoints rt src (path_normalize env path) addBPs [] s2 = (e3, succ, s3)"
            by (cases "doAddBreakpoints rt src (path_normalize env path) addBPs [] s2") auto
          from doAddBreakpoints_sent [of rt src "path_normalize env path" addBPs "[]" s2] r3
          obtain as where
            as: "sent s3 = sent s2 @ as" "\<forall>c \<in> set as. \<exists>n l. c = CmdSetBreakpoint n l" by auto
          from Pair Inr Some f r2 None r3
          have "sent (setBreakPointsRequest env rt path lines s) = sent s3"
            by (cases e3)
               (simp_all add: setBreakPointsRequest_def Let_def inLines_def remBPs_def addBPs_def)
          with ds as show ?thesis
            by - (rule exI [where x = ds], rule exI [where x = as], simp)
        qed
      qed
    qed
  qed
qed


lemma resetIDs_keeps_path_and_line:
  "map (map_option (\<lambda>b. (filePath b, line b))) (snd (resetIDs i bps))
     = map (map_option (\<lambda>b. (filePath b, line b))) bps"
proof (induction bps arbitrary: i)
  case Nil
  then show ?case by simp
next
  case (Cons a bps)
  then show ?case by (cases a) (simp_all add: split_beta)
qed

lemma updateAndRespond_answers:
  assumes "fst (removeBreakpoints remBPs (breakpoints s)) = None"
  shows "out (updateAndRespond remBPs persistBPs successBPs s)
           = out s @ [SendResponse
                        (BreakpointsBody (map (\<lambda>b. (True, line b)) (persistBPs @ successBPs)))]"
    and "numberedFrom 0 (breakpoints (updateAndRespond remBPs persistBPs successBPs s))"
proof -
  obtain bps where r: "removeBreakpoints remBPs (breakpoints s) = (None, bps)"
    using assms by (cases "removeBreakpoints remBPs (breakpoints s)") auto
  from removeBreakpoints_numbered [OF assms] r have "numberedFrom 0 bps" by simp
  then have nn: "None \<notin> set bps" by (rule numberedFrom_no_null)
  obtain bps' where a: "addBreakpoints successBPs bps = (None, bps')"
    using addBreakpoints_numbered [OF nn, of successBPs]
    by (cases "addBreakpoints successBPs bps") auto
  from addBreakpoints_numbered [OF nn, of successBPs] a have n': "numberedFrom 0 bps'" by simp
  from r a show "out (updateAndRespond remBPs persistBPs successBPs s)
           = out s @ [SendResponse
                        (BreakpointsBody (map (\<lambda>b. (True, line b)) (persistBPs @ successBPs)))]"
    by (simp add: updateAndRespond_def emit_def)
  from r a n' show "numberedFrom 0 (breakpoints (updateAndRespond remBPs persistBPs successBPs s))"
    by (simp add: updateAndRespond_def emit_def)
qed

text \<open>
  C3. A setBreakpoints request for a known file computes the breakpoints to add, to
  remove and to keep, sends the deletes before the adds and answers with the kept and the
  added breakpoints. The code does not answer when two breakpoints of the file are
  removed: the deletes are sent, then \<open>removeBreakpoints\<close> throws in the last \<open>then\<close> of the
  chain, no response is sent and the map is left with a \<open>null\<close> slot. In the example two
  breakpoints are set on \<^verbatim>\<open>/proj/main.ts\<close> and then cleared.
\<close>

theorem setBreakpoints_clearing_two_unanswered:
  "breakpoints (setBreakPointsRequest exEnv exRuntime ''/proj/main.ts'' [10, 20] exSession)
     = [Some \<lparr>filePath = ''/proj/main.ts'', dukIdx = Some 0, line = 10\<rparr>,
        Some \<lparr>filePath = ''/proj/main.ts'', dukIdx = Some 1, line = 20\<rparr>]
   \<and> out (setBreakPointsRequest exEnv exRuntime ''/proj/main.ts'' [10, 20] exSession)
     = [SendResponse (BreakpointsBody [(True, 10), (True, 20)])]
   \<and> sent (setBreakPointsRequest exEnv exRuntime ''/proj/main.ts'' []
             (setBreakPointsRequest exEnv exRuntime ''/proj/main.ts'' [10, 20] exSession))
     = [CmdSetBreakpoint ''main.js'' 12, CmdSetBreakpoint ''main.js'' 25,
        CmdRemoveBreakpoint (Some 0), CmdRemoveBreakpoint (Some 1)]
   \<and> out (setBreakPointsRequest exEnv exRuntime ''/proj/main.ts'' []
            (setBreakPointsRequest exEnv exRuntime ''/proj/main.ts'' [10, 20] exSession))
     = [SendResponse (BreakpointsBody [(True, 10), (True, 20)]), Thrown TypeError]
   \<and> breakpoints (setBreakPointsRequest exEnv exRuntime ''/proj/main.ts'' []
                    (setBreakPointsRequest exEnv exRuntime ''/proj/main.ts'' [10, 20] exSession))
     = [None, Some \<lparr>filePath = ''/proj/main.ts'', dukIdx = Some 1, line = 20\<rparr>]"
  by (simp add: model_defs exEnv_def exRuntime_def exSession_def exMap_def)

text \<open>
  The same happens when the runtime rejects a command: the handler-less \<open>catch()\<close> after
  the request passes the rejection on, and the \<open>then\<close> that sends the response is skipped.
\<close>

lemma setBreakpoints_rejected_add_unanswered:
  "out (setBreakPointsRequest exEnv (exRuntime\<lparr>ack := (\<lambda>h c. False)\<rparr>) ''/proj/main.ts'' [20]
          exSession)
     = [Thrown (Rejected ''requestSetBreakpoint'')]"
  by (simp add: model_defs exEnv_def exRuntime_def exSession_def exMap_def)

section \<open>Handles across pauses\<close>

text \<open>
  C4, as stated: every resume and pause invalidates the handles of the earlier pause, and
  a later variables request that quotes one is rejected as unknown. The listener resets
  the client state on a paused status only. After a running status the tables are as
  before, and the request for the scope set 1000 of the example is answered with the
  variables stored there.
\<close>

theorem resumed_session_serves_old_handle:
  "out (variablesRequest exNumber exConsts exRuntime 1000
          (on_nfy_status exEnv (exStatus Running 30) exPaused))
     = out exPaused
         @ [SendEvent (ContinuedEvent 1 True),
            SendResponse (VariablesBody
              [\<lparr>v_name = ''a'', v_value = ''Foo'', variablesReference = 1001\<rparr>,
               \<lparr>v_name = ''b'', v_value = ''Foo'', variablesReference = 1001\<rparr>,
               \<lparr>v_name = ''n'', v_value = ''42'', variablesReference = 0\<rparr>])]"
  by (simp add: on_nfy_status_def exPaused_fields exStatus_def exPaused_dbgState emit_def
        variablesRequest_def getPropSet_def Handles_get_def respondVars_def returnVars_def
        Array_sort_def compareVars_def exNumber_def modPropSet_def updDbg_def Handles_modify_def
        THREAD_ID_def)


lemma find_bp_no_null: "None \<notin> set bps \<Longrightarrow> \<exists>r. find_bp bps fp ln = Inr r"
proof (induction bps)
  case Nil
  then show ?case by (simp add: find_bp_def)
next
  case (Cons b bps)
  then obtain b' where "b = Some b'" by (cases b) auto
  with Cons show ?case
    by (auto simp: find_bp_def split: sum.splits option.splits bool.splits)
qed

lemma breakpoints_mapSourceFile [simp]:
  "breakpoints (snd (mapSourceFile env n s)) = breakpoints s"
  by (simp add: mapSourceFile_def Let_def split: option.splits)

lemma lookForBreakpoint_no_throw:
  assumes "None \<notin> set (breakpoints s)"
  shows "fst (lookForBreakpoint env status s) = None"
proof (cases "mapSourceFile env (st_filename status) s")
  case (Pair r s1)
  then have "breakpoints s1 = breakpoints s"
    using breakpoints_mapSourceFile [of env "st_filename status" s] by simp
  with assms have "None \<notin> set (breakpoints s1)" by simp
  from find_bp_no_null [OF this] Pair show ?thesis
    by (cases r) (auto simp: lookForBreakpoint_def Let_def split: sum.splits option.splits,
                  metis sum.simps(4))
qed

text \<open>
  C4, amended. A paused status that the listener handles after initialisation, with a
  breakpoint map free of \<open>null\<close>, replaces the client state: no variable, scope or frame
  handle is stored and the pointer cache is empty. A variables request that quotes any
  handle is then answered with the empty list, and nothing else changes. A running status
  leaves the three tables and the cache as they are.
\<close>

theorem paused_status_resets_handles:
  assumes "initialStatus s \<noteq> None" and "None \<notin> set (breakpoints s)"
  shows "(st_state status = Paused \<longrightarrow>
            dbgState (on_nfy_status env status s) = reset\<lparr>paused := True\<rparr>
            \<and> (\<forall>h. Handles_get (varHandles (dbgState (on_nfy_status env status s))) h = None
                  \<and> Handles_get (scopes (dbgState (on_nfy_status env status s))) h = None
                  \<and> Handles_get (stackFrames (dbgState (on_nfy_status env status s))) h = None)
            \<and> ptrHandles (dbgState (on_nfy_status env status s)) = []
            \<and> (\<forall>ref. ref \<noteq> 0 \<longrightarrow>
                  variablesRequest N dc rt ref (on_nfy_status env status s)
                    = (on_nfy_status env status s)
                        \<lparr>out := out (on_nfy_status env status s)
                                 @ [SendResponse (VariablesBody [])]\<rparr>))
       \<and> (st_state status = Running \<longrightarrow>
            varHandles (dbgState (on_nfy_status env status s)) = varHandles (dbgState s)
            \<and> scopes (dbgState (on_nfy_status env status s)) = scopes (dbgState s)
            \<and> stackFrames (dbgState (on_nfy_status env status s)) = stackFrames (dbgState s)
            \<and> ptrHandles (dbgState (on_nfy_status env status s)) = ptrHandles (dbgState s))"
proof (intro conjI impI)
  assume p: "st_state status = Paused"
  obtain s1 where l: "lookForBreakpoint env status s = (None, s1)"
    using lookForBreakpoint_no_throw [OF assms(2), of env status]
    by (cases "lookForBreakpoint env status s") auto
  from on_nfy_status_paused(3) [OF assms(1) p l]
  show d: "dbgState (on_nfy_status env status s) = reset\<lparr>paused := True\<rparr>" .
  then show "\<forall>h. Handles_get (varHandles (dbgState (on_nfy_status env status s))) h = None
                  \<and> Handles_get (scopes (dbgState (on_nfy_status env status s))) h = None
                  \<and> Handles_get (stackFrames (dbgState (on_nfy_status env status s))) h = None"
    by (simp add: reset_def Handles_new_def Handles_get_def)
  from d show "ptrHandles (dbgState (on_nfy_status env status s)) = []"
    by (simp add: reset_def)
  from d show "\<forall>ref. ref \<noteq> 0 \<longrightarrow>
                  variablesRequest N dc rt ref (on_nfy_status env status s)
                    = (on_nfy_status env status s)
                        \<lparr>out := out (on_nfy_status env status s)
                                 @ [SendResponse (VariablesBody [])]\<rparr>"
    by (simp add: variablesRequest_def getPropSet_def reset_def Handles_new_def Handles_get_def
                  emit_def)
next
  assume r: "st_state status = Running"
  with assms(1)
  show "varHandles (dbgState (on_nfy_status env status s)) = varHandles (dbgState s)"
    and "scopes (dbgState (on_nfy_status env status s)) = scopes (dbgState s)"
    and "stackFrames (dbgState (on_nfy_status env status s)) = stackFrames (dbgState s)"
    and "ptrHandles (dbgState (on_nfy_status env status s)) = ptrHandles (dbgState s)"
    by (auto simp: on_nfy_status_def Let_def emit_def)
qed

theorem paused_status_resets_handles_witness:
  "initialStatus exPaused \<noteq> None
   \<and> None \<notin> set (breakpoints exPaused)
   \<and> stored exPaused 1001
   \<and> Handles_get (varHandles (dbgState (on_nfy_status exEnv (exStatus Paused 40) exPaused))) 1001
       = None
   \<and> variablesRequest exNumber exConsts exRuntime 1001
        (on_nfy_status exEnv (exStatus Paused 40) exPaused)
       = (on_nfy_status exEnv (exStatus Paused 40) exPaused)
           \<lparr>out := out (on_nfy_status exEnv (exStatus Paused 40) exPaused)
                    @ [SendResponse (VariablesBody [])]\<rparr>
   \<and> varHandles (dbgState (on_nfy_status exEnv (exStatus Running 40) exPaused))
       = varHandles (dbgState exPaused)"
proof -
  have a: "initialStatus exPaused \<noteq> None" and b: "None \<notin> set (breakpoints exPaused)"
    by (simp_all add: exPaused_fields)
  have c: "stored exPaused 1001"
    by (simp add: stored_def getPropSet_def Handles_get_def exPaused_dbgState)
  have p: "st_state (exStatus Paused 40) = Paused" and r: "st_state (exStatus Running 40) = Running"
    by (simp_all add: exStatus_def)
  note t = paused_status_resets_handles [OF a b, where env = exEnv and N = exNumber
             and dc = exConsts and rt = exRuntime]
  note tp = t [where status = "exStatus Paused 40", THEN conjunct1, THEN mp, OF p]
  from tp [THEN conjunct2, THEN conjunct1, THEN spec, of 1001, THEN conjunct1]
  have d: "Handles_get (varHandles (dbgState (on_nfy_status exEnv (exStatus Paused 40) exPaused)))
             1001 = None" .
  from tp [THEN conjunct2, THEN conjunct2, THEN conjunct2, THEN spec, of 1001]
  have e: "variablesRequest exNumber exConsts exRuntime 1001
        (on_nfy_status exEnv (exStatus Paused 40) exPaused)
       = (on_nfy_status exEnv (exStatus Paused 40) exPaused)
           \<lparr>out := out (on_nfy_status exEnv (exStatus Paused 40) exPaused)
                    @ [SendResponse (VariablesBody [])]\<rparr>"
    by simp
  from t [where status = "exStatus Running 40", THEN conjunct2, THEN mp, OF r]
  have f: "varHandles (dbgState (on_nfy_status exEnv (exStatus Running 40) exPaused))
       = varHandles (dbgState exPaused)"
    by (rule conjunct1)
  show ?thesis
    by (intro conjI) (fact a b c d e f)+
qed

end
